theory Spec2Isabelle
  imports
    Complex_Main
    "HOL-Library.Multiset"
    "HOL-Library.Char_ord"
    "HOL-Library.List_Lexorder"
begin

unbundle bit_operations_syntax

section \<open>Values shared by the whole dashboard\<close>

text \<open>
  JavaScript strings are modelled as \<open>string\<close>; a character stands for the code unit of
  the same number (0 to 255). Exceptions are values of \<open>js_error\<close>; a function that can
  throw returns \<open>js_error + 'a\<close> with \<open>Inl\<close> for the rejection.
\<close>

datatype js_error =
    SyntaxError
  | TypeError
  | FetchRejected
  | FailedToFetchGuilds nat
  | WriteFailed

text \<open>
  The code units that \<open>String.prototype.trim\<close> and the BigInt string grammar treat as
  white space or line terminator: TAB, LF, VT, FF, CR, SP and NBSP.
\<close>

definition isWhiteSpace :: "char \<Rightarrow> bool" where
  "isWhiteSpace c \<longleftrightarrow>
     c \<in> set [CHR 0x09, CHR 0x0A, CHR 0x0B, CHR 0x0C, CHR 0x0D, CHR 0x20, CHR 0xA0]"

definition trim :: "string \<Rightarrow> string" where
  "trim s = rev (dropWhile isWhiteSpace (rev (dropWhile isWhiteSpace s)))"

section \<open>lib/discord.ts\<close>

subsection \<open>BigInt(string)\<close>

fun digit_value :: "char \<Rightarrow> nat option" where
  "digit_value c =
     (let n = (of_char c :: nat) in
      if 48 \<le> n \<and> n \<le> 57 then Some (n - 48)
      else if 97 \<le> n \<and> n \<le> 102 then Some (n - 87)
      else if 65 \<le> n \<and> n \<le> 70 then Some (n - 55)
      else None)"

fun digits_value :: "nat \<Rightarrow> nat \<Rightarrow> string \<Rightarrow> nat option" where
  "digits_value b acc [] = Some acc"
| "digits_value b acc (c # cs) =
     (case digit_value c of
        None \<Rightarrow> None
      | Some d \<Rightarrow> if d < b then digits_value b (acc * b + d) cs else None)"

definition parse_digits :: "nat \<Rightarrow> string \<Rightarrow> nat option" where
  "parse_digits b s = (if s = [] then None else digits_value b 0 s)"

text \<open>
  StringToBigInt of the language: surrounding white space is dropped, the empty text is
  zero, a decimal literal may carry a sign, a literal with the prefix 0x, 0o or 0b may not.
\<close>

definition StringToBigInt :: "string \<Rightarrow> int option" where
  "StringToBigInt s =
     (let t = trim s in
      if t = [] then Some 0
      else if take 2 t = ''0x'' \<or> take 2 t = ''0X''
        then map_option int (parse_digits 16 (drop 2 t))
      else if take 2 t = ''0o'' \<or> take 2 t = ''0O''
        then map_option int (parse_digits 8 (drop 2 t))
      else if take 2 t = ''0b'' \<or> take 2 t = ''0B''
        then map_option int (parse_digits 2 (drop 2 t))
      else if hd t = CHR ''-'' then map_option (\<lambda>n. - int n) (parse_digits 10 (tl t))
      else if hd t = CHR ''+'' then map_option int (parse_digits 10 (tl t))
      else map_option int (parse_digits 10 t))"

definition BigInt :: "string \<Rightarrow> js_error + int" where
  "BigInt s = (case StringToBigInt s of None \<Rightarrow> Inl SyntaxError | Some n \<Rightarrow> Inr n)"

subsection \<open>Guilds and the permission check\<close>

definition MANAGE_GUILD :: int where
  "MANAGE_GUILD = 0x20"

definition ADMINISTRATOR :: int where
  "ADMINISTRATOR = 0x8"

record DiscordGuild =
  dg_id :: string
  dg_name :: string
  dg_icon :: "string option"
  owner :: bool
  permissions :: string

record ManageableGuild =
  mg_id :: string
  mg_name :: string
  mg_icon :: "string option"
  hasBot :: bool

text \<open>
  \<open>canManageGuild\<close> converts the permission string before it looks at the owner flag,
  so a string that is no integer literal makes it throw, also for the owner.
\<close>

definition canManageGuild :: "DiscordGuild \<Rightarrow> js_error + bool" where
  "canManageGuild guild =
     (case BigInt (permissions guild) of
        Inl e \<Rightarrow> Inl e
      | Inr perms \<Rightarrow>
          Inr (owner guild
               \<or> (perms AND ADMINISTRATOR) = ADMINISTRATOR
               \<or> (perms AND MANAGE_GUILD) = MANAGE_GUILD))"

subsection \<open>The two upstream queries\<close>

text \<open>
  What a call of \<open>fetch\<close> followed by \<open>response.json()\<close> can do: reject, answer with a
  status that is not ok, or answer ok with a body.
\<close>

datatype 'a fetched = Rejects | NotOk nat | Ok 'a

text \<open>
  The surroundings of one request: the platform's answer to the user's guild query (by
  access token) and to the bot's guild query (by bot token), the environment variable
  \<open>DISCORD_BOT_TOKEN\<close>, and the host's \<open>String.prototype.localeCompare\<close>.
\<close>

record environment =
  userGuildsResponse :: "string \<Rightarrow> DiscordGuild list fetched"
  DISCORD_BOT_TOKEN :: "string option"
  botGuildsResponse :: "string \<Rightarrow> DiscordGuild list fetched"
  localeCompare :: "string \<Rightarrow> string \<Rightarrow> int"

definition getUserGuilds :: "environment \<Rightarrow> string \<Rightarrow> js_error + DiscordGuild list" where
  "getUserGuilds env accessToken =
     (case userGuildsResponse env accessToken of
        Rejects \<Rightarrow> Inl FetchRejected
      | NotOk st \<Rightarrow> Inl (FailedToFetchGuilds st)
      | Ok guilds \<Rightarrow> Inr guilds)"

definition getBotGuilds :: "environment \<Rightarrow> string list" where
  "getBotGuilds env =
     (case DISCORD_BOT_TOKEN env of
        None \<Rightarrow> []
      | Some botToken \<Rightarrow>
          if botToken = [] then []
          else (case botGuildsResponse env botToken of
                  Rejects \<Rightarrow> []
                | NotOk st \<Rightarrow> []
                | Ok guilds \<Rightarrow> map dg_id guilds))"

subsection \<open>getManageableGuilds\<close>

text \<open>\<open>Array.prototype.filter\<close> with a callback that can throw: the first throw ends it.\<close>

fun filter_canManage :: "DiscordGuild list \<Rightarrow> js_error + DiscordGuild list" where
  "filter_canManage [] = Inr []"
| "filter_canManage (g # gs) =
     (case canManageGuild g of
        Inl e \<Rightarrow> Inl e
      | Inr keep \<Rightarrow>
          (case filter_canManage gs of
             Inl e \<Rightarrow> Inl e
           | Inr rest \<Rightarrow> Inr (if keep then g # rest else rest)))"

definition toManageable :: "string set \<Rightarrow> DiscordGuild \<Rightarrow> ManageableGuild" where
  "toManageable botGuildSet guild =
     \<lparr>mg_id = dg_id guild, mg_name = dg_name guild, mg_icon = dg_icon guild,
      hasBot = (dg_id guild \<in> botGuildSet)\<rparr>"

text \<open>The comparator handed to \<open>sort\<close>: guilds with the bot first, then by name.\<close>

definition compareGuilds :: "(string \<Rightarrow> string \<Rightarrow> int) \<Rightarrow> ManageableGuild \<Rightarrow> ManageableGuild \<Rightarrow> int" where
  "compareGuilds lc a b =
     (if hasBot a \<and> \<not> hasBot b then -1
      else if \<not> hasBot a \<and> hasBot b then 1
      else lc (mg_name a) (mg_name b))"

text \<open>
  \<open>Array.prototype.sort\<close> is a stable sort; it is modelled as the stable insertion sort
  under the comparator, which for a consistent comparator yields the one stable sorted
  arrangement the language prescribes.
\<close>

fun insert_sorted :: "('a \<Rightarrow> 'a \<Rightarrow> int) \<Rightarrow> 'a \<Rightarrow> 'a list \<Rightarrow> 'a list" where
  "insert_sorted cmp x [] = [x]"
| "insert_sorted cmp x (y # ys) =
     (if cmp x y \<le> 0 then x # y # ys else y # insert_sorted cmp x ys)"

fun array_sort :: "('a \<Rightarrow> 'a \<Rightarrow> int) \<Rightarrow> 'a list \<Rightarrow> 'a list" where
  "array_sort cmp [] = []"
| "array_sort cmp (x # xs) = insert_sorted cmp x (array_sort cmp xs)"

definition manageableOf :: "(string \<Rightarrow> string \<Rightarrow> int) \<Rightarrow> DiscordGuild list \<Rightarrow> string list
    \<Rightarrow> js_error + ManageableGuild list" where
  "manageableOf lc userGuilds botGuildIds =
     (let botGuildSet = set botGuildIds in
      case filter_canManage userGuilds of
        Inl e \<Rightarrow> Inl e
      | Inr kept \<Rightarrow> Inr (array_sort (compareGuilds lc) (map (toManageable botGuildSet) kept)))"

definition getManageableGuilds :: "environment \<Rightarrow> string \<Rightarrow> js_error + ManageableGuild list" where
  "getManageableGuilds env accessToken =
     (case getUserGuilds env accessToken of
        Inl e \<Rightarrow> Inl e
      | Inr userGuilds \<Rightarrow> manageableOf (localeCompare env) userGuilds (getBotGuilds env))"

section \<open>lib/config.types.ts\<close>

text \<open>
  A JavaScript number that is only stored, copied and compared is a rational here; nothing
  in the dashboard computes with the settings.
\<close>

type_synonym number = rat

record GuildSettings =
  maxTokensPerChannel :: number
  messageExpiryDays :: number
  charsPerTokenEstimate :: number
  maxResponseTokens :: number
  scoreThreshold :: number
  rateLimitSeconds :: number
  temperature :: number
  model :: string
  skipCategories :: "string list"

record GuildCommands =
  beer :: bool
  ping :: bool
  uptime :: bool
  cacheStats :: bool
  clearCache :: bool

record GuildConfig =
  guildId :: string
  guildName :: string
  settings :: GuildSettings
  commands :: GuildCommands
  systemPrompt :: "string option"
  updatedAt :: string
  updatedBy :: string

definition DEFAULT_SETTINGS :: GuildSettings where
  "DEFAULT_SETTINGS =
     \<lparr>maxTokensPerChannel = 150000,
      messageExpiryDays = 30,
      charsPerTokenEstimate = 4,
      maxResponseTokens = 300,
      scoreThreshold = 8,
      rateLimitSeconds = 2,
      temperature = 7 / 10,
      model = ''claude-sonnet-4-5-20250929'',
      skipCategories = [''Information'']\<rparr>"

definition DEFAULT_COMMANDS :: GuildCommands where
  "DEFAULT_COMMANDS =
     \<lparr>beer = True, ping = True, uptime = True, cacheStats = True, clearCache = True\<rparr>"

fun join_lines :: "string list \<Rightarrow> string" where
  "join_lines [] = []"
| "join_lines [l] = l"
| "join_lines (l # ls) = l @ CHR 0x0A # join_lines ls"

definition DEFAULT_SYSTEM_PROMPT :: string where
  "DEFAULT_SYSTEM_PROMPT = join_lines [
      ''You are a helpful, witty Discord bot in a casual server.'',
      [],
      ''RESPONSE RULES:'',
      ''- Keep responses to 1-3 sentences MAX. Be brief.'',
      ''- Aim to be the 5th-6th most active participant in server (your name is '' @ [CHR 0x22] @ ''ClaudeBot'' @ [CHR 0x22] @ '' in '' @ [CHR 0x22] @ ''Recent Conversation:'' @ [CHR 0x22] @ '')'',
      ''- Use recent conversation and if you notice you haven'' @ [CHR 0x27] @ ''t chatted in awhile, raise your score accordingly.'',
      ''- Most conversations don'' @ [CHR 0x27] @ ''t need your input - only add high value responses'',
      ''- Only respond if directly mentioned OR you can add genuinely valuable input'',
      ''- NEVER end with follow-up questions'',
      [],
      ''MENTION FORMAT:'',
      ''- Messages starting with [MENTIONED] mean the user addressed you (@ClaudeBot or '' @ [CHR 0x22] @ ''ClaudeBot'' @ [CHR 0x22] @ '') These deserve a response (score 9+)'',
      ''- Note: '' @ [CHR 0x22] @ ''claude'' @ [CHR 0x22] @ '' alone is ambiguous (could mean Claude AI service or ClaudeBot) - use context to decide'',
      [],
      ''SCORING (rate your response 0-10):'',
      ''10 = [MENTIONED] AND asked a clear question you can answer'',
      ''9 = [MENTIONED] OR celebrate someone'' @ [CHR 0x27] @ ''s accomplishment'',
      ''8 = Can provide high value while staying the 5th-6th most active participant'',
      ''5-7 = Might be interesting but doesn'' @ [CHR 0x27] @ ''t need your input'',
      ''0-4 = Skip it - normal chat between other users'',
      [],
      ''CATEGORY CONTEXT:'',
      ''- '' @ [CHR 0x22] @ ''Information'' @ [CHR 0x22] @ '' = NEVER respond (score 0)'',
      ''- '' @ [CHR 0x22] @ ''tech-and-career'' @ [CHR 0x22] @ '' = Usually networking. BUT celebrate accomplishments! (score 8)'',
      ''- '' @ [CHR 0x22] @ ''Text Channels'' @ [CHR 0x22] @ '' = May engage if valuable'',
      [],
      ''FORMAT: Write your brief response, then on a new line: SCORE: X'']"

text \<open>
  \<open>Partial<GuildSettings>\<close> and \<open>Partial<GuildCommands>\<close>: every field may be missing.
\<close>

record PartialSettings =
  p_maxTokensPerChannel :: "number option"
  p_messageExpiryDays :: "number option"
  p_charsPerTokenEstimate :: "number option"
  p_maxResponseTokens :: "number option"
  p_scoreThreshold :: "number option"
  p_rateLimitSeconds :: "number option"
  p_temperature :: "number option"
  p_model :: "string option"
  p_skipCategories :: "string list option"

record PartialCommands =
  p_beer :: "bool option"
  p_ping :: "bool option"
  p_uptime :: "bool option"
  p_cacheStats :: "bool option"
  p_clearCache :: "bool option"

text \<open>
  The stats artifact is written by the bot process. The reader copes with a missing
  \<open>uptime\<close>, \<open>latency\<close> or \<open>guilds\<close> and with missing counters of an entry, so these
  are optional here (\<open>None\<close> is the field being absent or \<open>null\<close>).
\<close>

record GuildUsage =
  u_messagesCached :: "number option"
  u_tokensUsed :: "number option"
  u_lastActivity :: "string option"

record BotStats =
  bs_uptime :: "string option"
  bs_latency :: "number option"
  bs_totalGuilds :: number
  bs_guilds :: "(string \<Rightarrow> GuildUsage option) option"
  bs_updatedAt :: string

section \<open>lib/config.server.ts\<close>

text \<open>
  What \<open>readFile\<close> followed by \<open>JSON.parse\<close> can find in a file that exists: text that
  is no JSON (\<open>JSON.parse\<close> throws), JSON text whose value is falsy (\<open>null\<close>,
  \<open>false\<close>, \<open>0\<close>, the empty string), or an object of the declared type. A file
  written by \<open>JSON.stringify\<close> of a record parses back to that record: its fields are
  strings, finite numbers, booleans, \<open>null\<close> and string arrays.
\<close>

datatype 'a json_file = NotJson | JsonFalsy | Json 'a

text \<open>
  \<open>getGuildConfig\<close> returns what \<open>JSON.parse\<close> gives, and \<open>null\<close> when reading or
  parsing throws; its caller tests the result for truthiness, so a falsy value counts
  as no record. The same holds of \<open>getBotStats\<close> and its caller.
\<close>

text \<open>
  The world the server code acts on. \<open>configFiles\<close> is the configuration directory, one
  file per guild identifier (identifiers are the platform's numeric strings, so the file
  name determines the identifier); \<open>statsFile\<close> is the shared stats artifact. \<open>step\<close>
  counts the effects performed so far: \<open>clock\<close> gives what
  \<open>new Date().toISOString()\<close> returns at a step and \<open>writeFails\<close> whether creating the
  directory or writing the file throws at a step.
\<close>

record world =
  configFiles :: "string \<Rightarrow> GuildConfig json_file option"
  statsFile :: "BotStats json_file option"
  clock :: "nat \<Rightarrow> string"
  writeFails :: "nat \<Rightarrow> bool"
  step :: nat

definition getGuildConfig :: "world \<Rightarrow> string \<Rightarrow> GuildConfig option" where
  "getGuildConfig w gid =
     (case configFiles w gid of
        None \<Rightarrow> None
      | Some NotJson \<Rightarrow> None
      | Some JsonFalsy \<Rightarrow> None
      | Some (Json config) \<Rightarrow> Some config)"

definition saveGuildConfig :: "world \<Rightarrow> GuildConfig \<Rightarrow> (js_error + unit) \<times> world" where
  "saveGuildConfig w config =
     (if writeFails w (step w)
      then (Inl WriteFailed, w\<lparr>step := Suc (step w)\<rparr>)
      else (Inr (),
            w\<lparr>configFiles := (configFiles w)(guildId config \<mapsto> Json config),
              step := Suc (step w)\<rparr>))"

definition now_toISOString :: "world \<Rightarrow> string \<times> world" where
  "now_toISOString w = (clock w (step w), w\<lparr>step := Suc (step w)\<rparr>)"

text \<open>The record that \<open>getOrCreateGuildConfig\<close> builds when it finds none.\<close>

definition newConfig :: "string \<Rightarrow> string \<Rightarrow> string \<Rightarrow> GuildConfig" where
  "newConfig gid gname t =
     \<lparr>guildId = gid,
      guildName = gname,
      settings = DEFAULT_SETTINGS,
      commands = DEFAULT_COMMANDS,
      systemPrompt = None,
      updatedAt = t,
      updatedBy = ''system''\<rparr>"

definition getOrCreateGuildConfig :: "world \<Rightarrow> string \<Rightarrow> string \<Rightarrow> (js_error + GuildConfig) \<times> world" where
  "getOrCreateGuildConfig w gid gname =
     (case getGuildConfig w gid of
        Some existing \<Rightarrow> (Inr existing, w)
      | None \<Rightarrow>
          (case now_toISOString w of
             (t, w1) \<Rightarrow>
               (case saveGuildConfig w1 (newConfig gid gname t) of
                  (Inl e, w2) \<Rightarrow> (Inl e, w2)
                | (Inr u, w2) \<Rightarrow> (Inr (newConfig gid gname t), w2))))"

text \<open>
  The object spread \<open>{ ...old, ...partial }\<close>, field by field; spreading \<open>undefined\<close>
  (no partial object at all) adds nothing.
\<close>

definition or_else :: "'a option \<Rightarrow> 'a \<Rightarrow> 'a" where
  "or_else v d = (case v of None \<Rightarrow> d | Some x \<Rightarrow> x)"

definition spreadSettings :: "GuildSettings \<Rightarrow> PartialSettings option \<Rightarrow> GuildSettings" where
  "spreadSettings old partial =
     (case partial of
        None \<Rightarrow> old
      | Some p \<Rightarrow>
          \<lparr>maxTokensPerChannel = or_else (p_maxTokensPerChannel p) (maxTokensPerChannel old),
           messageExpiryDays = or_else (p_messageExpiryDays p) (messageExpiryDays old),
           charsPerTokenEstimate = or_else (p_charsPerTokenEstimate p) (charsPerTokenEstimate old),
           maxResponseTokens = or_else (p_maxResponseTokens p) (maxResponseTokens old),
           scoreThreshold = or_else (p_scoreThreshold p) (scoreThreshold old),
           rateLimitSeconds = or_else (p_rateLimitSeconds p) (rateLimitSeconds old),
           temperature = or_else (p_temperature p) (temperature old),
           model = or_else (p_model p) (model old),
           skipCategories = or_else (p_skipCategories p) (skipCategories old)\<rparr>)"

definition spreadCommands :: "GuildCommands \<Rightarrow> PartialCommands option \<Rightarrow> GuildCommands" where
  "spreadCommands old partial =
     (case partial of
        None \<Rightarrow> old
      | Some p \<Rightarrow>
          \<lparr>beer = or_else (p_beer p) (beer old),
           ping = or_else (p_ping p) (ping old),
           uptime = or_else (p_uptime p) (uptime old),
           cacheStats = or_else (p_cacheStats p) (cacheStats old),
           clearCache = or_else (p_clearCache p) (clearCache old)\<rparr>)"

text \<open>The common tail of the three updates: stamp time and actor, save, return.\<close>

definition stampAndSave :: "world \<Rightarrow> GuildConfig \<Rightarrow> string \<Rightarrow> (js_error + GuildConfig) \<times> world" where
  "stampAndSave w config actor =
     (case now_toISOString w of
        (t, w1) \<Rightarrow>
          (case saveGuildConfig w1 (config\<lparr>updatedAt := t, updatedBy := actor\<rparr>) of
             (Inl e, w2) \<Rightarrow> (Inl e, w2)
           | (Inr u, w2) \<Rightarrow> (Inr (config\<lparr>updatedAt := t, updatedBy := actor\<rparr>), w2)))"

definition updateGuildSettings ::
    "world \<Rightarrow> string \<Rightarrow> string \<Rightarrow> PartialSettings option \<Rightarrow> string \<Rightarrow> (js_error + GuildConfig) \<times> world" where
  "updateGuildSettings w gid gname partial actor =
     (case getOrCreateGuildConfig w gid gname of
        (Inl e, w1) \<Rightarrow> (Inl e, w1)
      | (Inr config, w1) \<Rightarrow>
          stampAndSave w1 (config\<lparr>settings := spreadSettings (settings config) partial\<rparr>) actor)"

definition updateGuildCommands ::
    "world \<Rightarrow> string \<Rightarrow> string \<Rightarrow> PartialCommands option \<Rightarrow> string \<Rightarrow> (js_error + GuildConfig) \<times> world" where
  "updateGuildCommands w gid gname partial actor =
     (case getOrCreateGuildConfig w gid gname of
        (Inl e, w1) \<Rightarrow> (Inl e, w1)
      | (Inr config, w1) \<Rightarrow>
          stampAndSave w1 (config\<lparr>commands := spreadCommands (commands config) partial\<rparr>) actor)"

definition updateGuildPrompt ::
    "world \<Rightarrow> string \<Rightarrow> string \<Rightarrow> string option \<Rightarrow> string \<Rightarrow> (js_error + GuildConfig) \<times> world" where
  "updateGuildPrompt w gid gname prompt actor =
     (case getOrCreateGuildConfig w gid gname of
        (Inl e, w1) \<Rightarrow> (Inl e, w1)
      | (Inr config, w1) \<Rightarrow> stampAndSave w1 (config\<lparr>systemPrompt := prompt\<rparr>) actor)"

text \<open>
  The four operations of the store as calls, and a run of calls one after the other,
  each on the world the one before left (whether it returned or threw).
\<close>

datatype store_call =
    GetOrCreate string string
  | UpdateSettings string string "PartialSettings option" string
  | UpdateCommands string string "PartialCommands option" string
  | UpdatePrompt string string "string option" string

fun perform :: "world \<Rightarrow> store_call \<Rightarrow> (js_error + GuildConfig) \<times> world" where
  "perform w (GetOrCreate gid gname) = getOrCreateGuildConfig w gid gname"
| "perform w (UpdateSettings gid gname partial actor) = updateGuildSettings w gid gname partial actor"
| "perform w (UpdateCommands gid gname partial actor) = updateGuildCommands w gid gname partial actor"
| "perform w (UpdatePrompt gid gname prompt actor) = updateGuildPrompt w gid gname prompt actor"

fun run_calls :: "world \<Rightarrow> store_call list \<Rightarrow> world" where
  "run_calls w [] = w"
| "run_calls w (c # cs) = run_calls (snd (perform w c)) cs"

text \<open>
  Every configuration file holds the record of the guild it is named after. The store
  keeps it so, since \<open>saveGuildConfig\<close> names the file after the record.
\<close>

definition files_match_ids :: "world \<Rightarrow> bool" where
  "files_match_ids w \<longleftrightarrow> (\<forall>k c. configFiles w k = Some (Json c) \<longrightarrow> guildId c = k)"

text \<open>
  What a run of calls must keep for the guild \<open>gid\<close>: its file holds a record, and the
  record has the display name \<open>n\<close>.
\<close>

definition keeps :: "string \<Rightarrow> string \<Rightarrow> world \<Rightarrow> bool" where
  "keeps gid n w \<longleftrightarrow>
     files_match_ids w \<and> (\<exists>c1. configFiles w gid = Some (Json c1) \<and> guildName c1 = n)"

subsection \<open>Stats\<close>

definition getBotStats :: "world \<Rightarrow> BotStats option" where
  "getBotStats w =
     (case statsFile w of
        None \<Rightarrow> None
      | Some NotJson \<Rightarrow> None
      | Some JsonFalsy \<Rightarrow> None
      | Some (Json stats) \<Rightarrow> Some stats)"

record GuildStats =
  messagesCached :: number
  tokensUsed :: number
  lastActivity :: string
  botUptime :: string
  botLatency :: number

definition getGuildStats :: "world \<Rightarrow> string \<Rightarrow> GuildStats option" where
  "getGuildStats w gid =
     (case getBotStats w of
        None \<Rightarrow> None
      | Some stats \<Rightarrow>
          (let guildStats = (case bs_guilds stats of None \<Rightarrow> None | Some gs \<Rightarrow> gs gid)
           in Some
                \<lparr>messagesCached =
                   or_else (case guildStats of None \<Rightarrow> None | Some u \<Rightarrow> u_messagesCached u) 0,
                 tokensUsed =
                   or_else (case guildStats of None \<Rightarrow> None | Some u \<Rightarrow> u_tokensUsed u) 0,
                 lastActivity =
                   or_else (case guildStats of None \<Rightarrow> None | Some u \<Rightarrow> u_lastActivity u) ''Never'',
                 botUptime = or_else (bs_uptime stats) ''Unknown'',
                 botLatency = or_else (bs_latency stats) 0\<rparr>))"

section \<open>The route handlers\<close>

subsection \<open>Access verification\<close>

text \<open>
  The verifier of the config, commands and prompt routes returns one of two objects:
  \<open>{ authorized: false }\<close> or \<open>{ authorized: true, guildName }\<close>.
\<close>

datatype access = Denied | Authorized string

fun authorized :: "access \<Rightarrow> bool" where
  "authorized Denied = False"
| "authorized (Authorized gname) = True"

definition verifyAccess :: "environment \<Rightarrow> string \<Rightarrow> string \<Rightarrow> js_error + access" where
  "verifyAccess env gid accessToken =
     (case getManageableGuilds env accessToken of
        Inl e \<Rightarrow> Inl e
      | Inr guilds \<Rightarrow>
          (case find (\<lambda>g. mg_id g = gid) guilds of
             None \<Rightarrow> Inr Denied
           | Some guild \<Rightarrow>
               if \<not> hasBot guild then Inr Denied else Inr (Authorized (mg_name guild))))"

text \<open>The stats route has its own verifier, which answers with a boolean.\<close>

definition verifyAccess_stats :: "environment \<Rightarrow> string \<Rightarrow> string \<Rightarrow> js_error + bool" where
  "verifyAccess_stats env gid accessToken =
     (case getManageableGuilds env accessToken of
        Inl e \<Rightarrow> Inl e
      | Inr guilds \<Rightarrow>
          (case find (\<lambda>g. mg_id g = gid) guilds of
             None \<Rightarrow> Inr False
           | Some guild \<Rightarrow> Inr (hasBot guild)))"

subsection \<open>Requests and responses\<close>

record session =
  accessToken :: "string option"
  user_id :: string

text \<open>
  What \<open>request.json()\<close> yields: a rejection when the body is no JSON, \<open>null\<close>, or an
  object whose fields of interest may be missing. The field \<open>systemPrompt\<close> of the body
  is missing or \<open>null\<close>, a string, or another JSON value (a number, a boolean, an array
  or an object), which has no \<open>trim\<close> method.
\<close>

datatype json_prompt = PromptMissing | PromptString string | PromptOther

record body_fields =
  b_settings :: "PartialSettings option"
  b_commands :: "PartialCommands option"
  b_systemPrompt :: json_prompt

datatype request_body = BodyNotJson | BodyNull | BodyObject body_fields

record request =
  session_of :: "session option"
  json_of :: request_body

datatype response_body =
    ErrorBody string
  | GuildsBody "ManageableGuild list"
  | ConfigBody GuildConfig
  | CommandsBody GuildCommands
  | PromptBody "string option" string bool
  | PromptUpdatedBody "string option" bool
  | StatsBody GuildStats

record response =
  status :: nat
  body :: response_body

definition json_response :: "response_body \<Rightarrow> nat \<Rightarrow> response" where
  "json_response b st = \<lparr>status = st, body = b\<rparr>"

text \<open>
  The guard \<open>!session?.accessToken\<close>: no session, no token and the empty token all fail
  it. A session that passes gives its token and its user identifier.
\<close>

definition authenticated :: "request \<Rightarrow> (string \<times> string) option" where
  "authenticated req =
     (case session_of req of
        None \<Rightarrow> None
      | Some s \<Rightarrow>
          (case accessToken s of
             None \<Rightarrow> None
           | Some tok \<Rightarrow> if tok = [] then None else Some (tok, user_id s)))"

definition read_body :: "request \<Rightarrow> js_error + body_fields" where
  "read_body req =
     (case json_of req of
        BodyNotJson \<Rightarrow> Inl SyntaxError
      | BodyNull \<Rightarrow> Inl TypeError
      | BodyObject obj \<Rightarrow> Inr obj)"

text \<open>
  A handler's outcome is the response it returns, or the error it lets escape to the
  framework, together with the world it leaves. \<open>catch_500\<close> is the \<open>catch\<close> clause that
  every handler puts around its operation.
\<close>

type_synonym outcome = "(js_error + response) \<times> world"

definition catch_500 :: "string \<Rightarrow> outcome \<Rightarrow> outcome" where
  "catch_500 msg r =
     (case r of
        (Inl e, w) \<Rightarrow> (Inr (json_response (ErrorBody msg) 500), w)
      | (Inr resp, w) \<Rightarrow> (Inr resp, w))"

definition unauthorized_401 :: response where
  "unauthorized_401 = json_response (ErrorBody ''Unauthorized'') 401"

definition forbidden_403 :: response where
  "forbidden_403 = json_response (ErrorBody ''Forbidden'') 403"

subsection \<open>app/api/guilds/route.ts\<close>


subsection \<open>app/api/guilds/[guildId]/config/route.ts\<close>

definition config_GET_try :: "world \<Rightarrow> string \<Rightarrow> string \<Rightarrow> outcome" where
  "config_GET_try w gid gname =
     (case getOrCreateGuildConfig w gid gname of
        (Inl e, w1) \<Rightarrow> (Inl e, w1)
      | (Inr config, w1) \<Rightarrow> (Inr (json_response (ConfigBody config) 200), w1))"

definition config_GET :: "environment \<Rightarrow> world \<Rightarrow> request \<Rightarrow> string \<Rightarrow> outcome" where
  "config_GET env w req gid =
     (case authenticated req of
        None \<Rightarrow> (Inr unauthorized_401, w)
      | Some (tok, uid) \<Rightarrow>
          (case verifyAccess env gid tok of
             Inl e \<Rightarrow> (Inl e, w)
           | Inr Denied \<Rightarrow> (Inr forbidden_403, w)
           | Inr (Authorized gname) \<Rightarrow>
               catch_500 ''Failed to get config'' (config_GET_try w gid gname)))"

definition config_PUT_try :: "world \<Rightarrow> request \<Rightarrow> string \<Rightarrow> string \<Rightarrow> string \<Rightarrow> outcome" where
  "config_PUT_try w req gid gname uid =
     (case read_body req of
        Inl e \<Rightarrow> (Inl e, w)
      | Inr obj \<Rightarrow>
          (case updateGuildSettings w gid gname (b_settings obj) uid of
             (Inl e, w1) \<Rightarrow> (Inl e, w1)
           | (Inr config, w1) \<Rightarrow> (Inr (json_response (ConfigBody config) 200), w1)))"

definition config_PUT :: "environment \<Rightarrow> world \<Rightarrow> request \<Rightarrow> string \<Rightarrow> outcome" where
  "config_PUT env w req gid =
     (case authenticated req of
        None \<Rightarrow> (Inr unauthorized_401, w)
      | Some (tok, uid) \<Rightarrow>
          (case verifyAccess env gid tok of
             Inl e \<Rightarrow> (Inl e, w)
           | Inr Denied \<Rightarrow> (Inr forbidden_403, w)
           | Inr (Authorized gname) \<Rightarrow>
               catch_500 ''Failed to update config'' (config_PUT_try w req gid gname uid)))"

subsection \<open>app/api/guilds/[guildId]/commands/route.ts\<close>

definition commands_GET_try :: "world \<Rightarrow> string \<Rightarrow> string \<Rightarrow> outcome" where
  "commands_GET_try w gid gname =
     (case getOrCreateGuildConfig w gid gname of
        (Inl e, w1) \<Rightarrow> (Inl e, w1)
      | (Inr config, w1) \<Rightarrow> (Inr (json_response (CommandsBody (commands config)) 200), w1))"

definition commands_GET :: "environment \<Rightarrow> world \<Rightarrow> request \<Rightarrow> string \<Rightarrow> outcome" where
  "commands_GET env w req gid =
     (case authenticated req of
        None \<Rightarrow> (Inr unauthorized_401, w)
      | Some (tok, uid) \<Rightarrow>
          (case verifyAccess env gid tok of
             Inl e \<Rightarrow> (Inl e, w)
           | Inr Denied \<Rightarrow> (Inr forbidden_403, w)
           | Inr (Authorized gname) \<Rightarrow>
               catch_500 ''Failed to get commands'' (commands_GET_try w gid gname)))"

definition commands_PUT_try :: "world \<Rightarrow> request \<Rightarrow> string \<Rightarrow> string \<Rightarrow> string \<Rightarrow> outcome" where
  "commands_PUT_try w req gid gname uid =
     (case read_body req of
        Inl e \<Rightarrow> (Inl e, w)
      | Inr obj \<Rightarrow>
          (case updateGuildCommands w gid gname (b_commands obj) uid of
             (Inl e, w1) \<Rightarrow> (Inl e, w1)
           | (Inr config, w1) \<Rightarrow> (Inr (json_response (CommandsBody (commands config)) 200), w1)))"

definition commands_PUT :: "environment \<Rightarrow> world \<Rightarrow> request \<Rightarrow> string \<Rightarrow> outcome" where
  "commands_PUT env w req gid =
     (case authenticated req of
        None \<Rightarrow> (Inr unauthorized_401, w)
      | Some (tok, uid) \<Rightarrow>
          (case verifyAccess env gid tok of
             Inl e \<Rightarrow> (Inl e, w)
           | Inr Denied \<Rightarrow> (Inr forbidden_403, w)
           | Inr (Authorized gname) \<Rightarrow>
               catch_500 ''Failed to update commands'' (commands_PUT_try w req gid gname uid)))"

subsection \<open>app/api/guilds/[guildId]/prompt/route.ts\<close>

definition prompt_GET_try :: "world \<Rightarrow> string \<Rightarrow> string \<Rightarrow> outcome" where
  "prompt_GET_try w gid gname =
     (case getOrCreateGuildConfig w gid gname of
        (Inl e, w1) \<Rightarrow> (Inl e, w1)
      | (Inr config, w1) \<Rightarrow>
          (Inr (json_response
                  (PromptBody (systemPrompt config) DEFAULT_SYSTEM_PROMPT
                     (systemPrompt config \<noteq> None)) 200), w1))"

definition prompt_GET :: "environment \<Rightarrow> world \<Rightarrow> request \<Rightarrow> string \<Rightarrow> outcome" where
  "prompt_GET env w req gid =
     (case authenticated req of
        None \<Rightarrow> (Inr unauthorized_401, w)
      | Some (tok, uid) \<Rightarrow>
          (case verifyAccess env gid tok of
             Inl e \<Rightarrow> (Inl e, w)
           | Inr Denied \<Rightarrow> (Inr forbidden_403, w)
           | Inr (Authorized gname) \<Rightarrow>
               catch_500 ''Failed to get prompt'' (prompt_GET_try w gid gname)))"

text \<open>
  \<open>body.systemPrompt?.trim() || null\<close>: the empty string is falsy, and calling the
  missing \<open>trim\<close> of a value that is no string throws.
\<close>

definition promptValue :: "json_prompt \<Rightarrow> js_error + string option" where
  "promptValue sp =
     (case sp of
        PromptMissing \<Rightarrow> Inr None
      | PromptString s \<Rightarrow> Inr (if trim s = [] then None else Some (trim s))
      | PromptOther \<Rightarrow> Inl TypeError)"

definition prompt_PUT_try :: "world \<Rightarrow> request \<Rightarrow> string \<Rightarrow> string \<Rightarrow> string \<Rightarrow> outcome" where
  "prompt_PUT_try w req gid gname uid =
     (case read_body req of
        Inl e \<Rightarrow> (Inl e, w)
      | Inr obj \<Rightarrow>
          (case promptValue (b_systemPrompt obj) of
             Inl e \<Rightarrow> (Inl e, w)
           | Inr prompt \<Rightarrow>
               (case updateGuildPrompt w gid gname prompt uid of
                  (Inl e, w1) \<Rightarrow> (Inl e, w1)
                | (Inr config, w1) \<Rightarrow>
                    (Inr (json_response
                            (PromptUpdatedBody (systemPrompt config)
                               (systemPrompt config \<noteq> None))
                            200), w1))))"

definition prompt_PUT :: "environment \<Rightarrow> world \<Rightarrow> request \<Rightarrow> string \<Rightarrow> outcome" where
  "prompt_PUT env w req gid =
     (case authenticated req of
        None \<Rightarrow> (Inr unauthorized_401, w)
      | Some (tok, uid) \<Rightarrow>
          (case verifyAccess env gid tok of
             Inl e \<Rightarrow> (Inl e, w)
           | Inr Denied \<Rightarrow> (Inr forbidden_403, w)
           | Inr (Authorized gname) \<Rightarrow>
               catch_500 ''Failed to update prompt'' (prompt_PUT_try w req gid gname uid)))"

subsection \<open>app/api/guilds/[guildId]/stats/route.ts\<close>

definition default_stats :: GuildStats where
  "default_stats =
     \<lparr>messagesCached = 0, tokensUsed = 0, lastActivity = ''Never'',
      botUptime = ''Unknown'', botLatency = 0\<rparr>"

definition stats_GET_try :: "world \<Rightarrow> string \<Rightarrow> outcome" where
  "stats_GET_try w gid =
     (case getGuildStats w gid of
        None \<Rightarrow> (Inr (json_response (StatsBody default_stats) 200), w)
      | Some stats \<Rightarrow> (Inr (json_response (StatsBody stats) 200), w))"

definition stats_GET :: "environment \<Rightarrow> world \<Rightarrow> request \<Rightarrow> string \<Rightarrow> outcome" where
  "stats_GET env w req gid =
     (case authenticated req of
        None \<Rightarrow> (Inr unauthorized_401, w)
      | Some (tok, uid) \<Rightarrow>
          (case verifyAccess_stats env gid tok of
             Inl e \<Rightarrow> (Inl e, w)
           | Inr hasAccess \<Rightarrow>
               if \<not> hasAccess then (Inr forbidden_403, w)
               else catch_500 ''Failed to get stats'' (stats_GET_try w gid)))"

subsection \<open>Routing\<close>

text \<open>The guild-scoped endpoints, by route and method.\<close>

datatype endpoint =
    ConfigGET | ConfigPUT | CommandsGET | CommandsPUT | PromptGET | PromptPUT | StatsGET

fun handle :: "endpoint \<Rightarrow> environment \<Rightarrow> world \<Rightarrow> request \<Rightarrow> string \<Rightarrow> outcome" where
  "handle ConfigGET = config_GET"
| "handle ConfigPUT = config_PUT"
| "handle CommandsGET = commands_GET"
| "handle CommandsPUT = commands_PUT"
| "handle PromptGET = prompt_GET"
| "handle PromptPUT = prompt_PUT"
| "handle StatsGET = stats_GET"

text \<open>
  The body of the \<open>try\<close> block of each endpoint, which is the store or reader operation
  it performs once access is granted, and the message of its \<open>catch\<close> clause.
\<close>

fun attempt :: "endpoint \<Rightarrow> world \<Rightarrow> request \<Rightarrow> string \<Rightarrow> string \<Rightarrow> string \<Rightarrow> outcome" where
  "attempt ConfigGET w req gid gname uid = config_GET_try w gid gname"
| "attempt ConfigPUT w req gid gname uid = config_PUT_try w req gid gname uid"
| "attempt CommandsGET w req gid gname uid = commands_GET_try w gid gname"
| "attempt CommandsPUT w req gid gname uid = commands_PUT_try w req gid gname uid"
| "attempt PromptGET w req gid gname uid = prompt_GET_try w gid gname"
| "attempt PromptPUT w req gid gname uid = prompt_PUT_try w req gid gname uid"
| "attempt StatsGET w req gid gname uid = stats_GET_try w gid"

fun failure_message :: "endpoint \<Rightarrow> string" where
  "failure_message ConfigGET = ''Failed to get config''"
| "failure_message ConfigPUT = ''Failed to update config''"
| "failure_message CommandsGET = ''Failed to get commands''"
| "failure_message CommandsPUT = ''Failed to update commands''"
| "failure_message PromptGET = ''Failed to get prompt''"
| "failure_message PromptPUT = ''Failed to update prompt''"
| "failure_message StatsGET = ''Failed to get stats''"

section \<open>Example data\<close>

text \<open>
  A user in four guilds: owner of 42 with an empty bitmask, plain member of 7, administrator
  of 5 and manager of 3. The bot is in 42, 7 and 3. The store holds the default record of
  guild 42, and the clock shows the same millisecond at every step.
\<close>

definition ex_guilds :: "DiscordGuild list" where
  "ex_guilds =
     [\<lparr>dg_id = ''42'', dg_name = ''Test Guild'', dg_icon = None, owner = True, permissions = ''0''\<rparr>,
      \<lparr>dg_id = ''7'', dg_name = ''Lounge'', dg_icon = None, owner = False, permissions = ''1024''\<rparr>,
      \<lparr>dg_id = ''5'', dg_name = ''Gamma'', dg_icon = None, owner = False, permissions = ''8''\<rparr>,
      \<lparr>dg_id = ''3'', dg_name = ''Alpha'', dg_icon = Some ''a_1f'', owner = False, permissions = ''1056''\<rparr>]"

definition ex_bot_guilds :: "DiscordGuild list" where
  "ex_bot_guilds =
     [\<lparr>dg_id = ''42'', dg_name = ''Test Guild'', dg_icon = None, owner = False, permissions = ''0''\<rparr>,
      \<lparr>dg_id = ''7'', dg_name = ''Lounge'', dg_icon = None, owner = False, permissions = ''0''\<rparr>,
      \<lparr>dg_id = ''3'', dg_name = ''Alpha'', dg_icon = Some ''a_1f'', owner = False, permissions = ''0''\<rparr>]"

definition ex_localeCompare :: "string \<Rightarrow> string \<Rightarrow> int" where
  "ex_localeCompare a b = (if a < b then -1 else if a = b then 0 else 1)"

definition ex_env :: environment where
  "ex_env =
     \<lparr>userGuildsResponse = (\<lambda>t. if t = ''token'' then Ok ex_guilds else NotOk 401),
      DISCORD_BOT_TOKEN = Some ''bot-token'',
      botGuildsResponse = (\<lambda>t. if t = ''bot-token'' then Ok ex_bot_guilds else NotOk 401),
      localeCompare = ex_localeCompare\<rparr>"

definition ex_bitmask :: "DiscordGuild \<Rightarrow> int" where
  "ex_bitmask g = (case BigInt (permissions g) of Inl e \<Rightarrow> 0 | Inr p \<Rightarrow> p)"

definition ex_time :: string where
  "ex_time = ''2025-01-01T00:00:00.000Z''"

definition ex_world0 :: world where
  "ex_world0 =
     \<lparr>configFiles = (\<lambda>k. None), statsFile = None, clock = (\<lambda>n. ex_time),
      writeFails = (\<lambda>n. False), step = 0\<rparr>"

definition ex_config :: GuildConfig where
  "ex_config = newConfig ''42'' ''Test Guild'' ex_time"

definition ex_world1 :: world where
  "ex_world1 = ex_world0\<lparr>configFiles := [''42'' \<mapsto> Json ex_config], step := 2\<rparr>"

definition ex_world_corrupt :: world where
  "ex_world_corrupt = ex_world0\<lparr>configFiles := [''42'' \<mapsto> NotJson]\<rparr>"

definition ex_partial :: PartialSettings where
  "ex_partial =
     \<lparr>p_maxTokensPerChannel = None, p_messageExpiryDays = None, p_charsPerTokenEstimate = None,
      p_maxResponseTokens = None, p_scoreThreshold = None, p_rateLimitSeconds = None,
      p_temperature = Some (1 / 2), p_model = None, p_skipCategories = None\<rparr>"

definition ex_stats :: BotStats where
  "ex_stats =
     \<lparr>bs_uptime = Some ''3h 12m'', bs_latency = Some 42, bs_totalGuilds = 1,
      bs_guilds = Some [''7'' \<mapsto> \<lparr>u_messagesCached = Some 10, u_tokensUsed = Some 2000,
                                     u_lastActivity = Some ex_time\<rparr>],
      bs_updatedAt = ex_time\<rparr>"

definition ex_world_stats :: world where
  "ex_world_stats = ex_world0\<lparr>statsFile := Some (Json ex_stats)\<rparr>"


definition ex_session :: session where
  "ex_session = \<lparr>accessToken = Some ''token'', user_id = ''1001''\<rparr>"

definition ex_request :: request where
  "ex_request = \<lparr>session_of = Some ex_session, json_of = BodyNotJson\<rparr>"

definition ex_request_expired :: request where
  "ex_request_expired =
     \<lparr>session_of = Some \<lparr>accessToken = Some ''expired'', user_id = ''1001''\<rparr>,
      json_of = BodyNotJson\<rparr>"

definition ex_request_anonymous :: request where
  "ex_request_anonymous = \<lparr>session_of = None, json_of = BodyNotJson\<rparr>"

definition ex_request_settings :: request where
  "ex_request_settings =
     \<lparr>session_of = Some ex_session,
      json_of = BodyObject
        \<lparr>b_settings = Some ex_partial, b_commands = None, b_systemPrompt = PromptMissing\<rparr>\<rparr>"

definition ex_request_prompt :: request where
  "ex_request_prompt =
     \<lparr>session_of = Some ex_session,
      json_of = BodyObject
        \<lparr>b_settings = None, b_commands = None, b_systemPrompt = PromptString ''  Be brief.  ''\<rparr>\<rparr>"

definition ex_request_blank :: request where
  "ex_request_blank =
     \<lparr>session_of = Some ex_session,
      json_of = BodyObject
        \<lparr>b_settings = None, b_commands = None, b_systemPrompt = PromptString ''   ''\<rparr>\<rparr>"

definition ex_request_number :: request where
  "ex_request_number =
     \<lparr>session_of = Some ex_session,
      json_of = BodyObject
        \<lparr>b_settings = None, b_commands = None, b_systemPrompt = PromptOther\<rparr>\<rparr>"

definition ex_world_null_stats :: world where
  "ex_world_null_stats = ex_world0\<lparr>statsFile := Some JsonFalsy\<rparr>"

definition ex_world_readonly :: world where
  "ex_world_readonly = ex_world1\<lparr>writeFails := (\<lambda>n. True)\<rparr>"

section \<open>The permission source and the access verifier\<close>

lemma canManageGuild_True_iff:
  "canManageGuild g = Inr True \<longleftrightarrow>
     (\<exists>p. BigInt (permissions g) = Inr p \<and> (owner g \<or> p AND 8 = 8 \<or> p AND 32 = 32))"
  by (auto simp: canManageGuild_def ADMINISTRATOR_def MANAGE_GUILD_def split: sum.splits)

lemma canManageGuild_parsed:
  "BigInt (permissions g) = Inr p \<Longrightarrow>
   canManageGuild g = Inr (owner g \<or> p AND 8 = 8 \<or> p AND 32 = 32)"
  by (simp add: canManageGuild_def ADMINISTRATOR_def MANAGE_GUILD_def)

lemma filter_canManage_parsed:
  "\<forall>g\<in>set gs. \<exists>p. BigInt (permissions g) = Inr p \<Longrightarrow>
   filter_canManage gs = Inr (filter (\<lambda>g. canManageGuild g = Inr True) gs)"
proof (induction gs)
  case Nil
  show ?case by simp
next
  case (Cons g gs)
  then obtain p where "BigInt (permissions g) = Inr p" by auto
  then have "canManageGuild g = Inr (owner g \<or> p AND 8 = 8 \<or> p AND 32 = 32)"
    by (rule canManageGuild_parsed)
  with Cons show ?case by simp
qed

lemma mset_insert_sorted: "mset (insert_sorted cmp x xs) = add_mset x (mset xs)"
  by (induction xs) auto

lemma mset_array_sort: "mset (array_sort cmp xs) = mset xs"
  by (induction xs) (auto simp: mset_insert_sorted)

lemma set_array_sort: "set (array_sort cmp xs) = set xs"
  by (metis mset_array_sort set_mset_mset)

lemma set_insert_sorted: "set (insert_sorted cmp x xs) = insert x (set xs)"
  by (induction xs) auto

lemma sorted_insert_sorted:
  assumes tot: "\<And>a b. cmp a b \<le> 0 \<or> cmp b a \<le> 0"
    and tr: "\<And>a b c. cmp a b \<le> 0 \<Longrightarrow> cmp b c \<le> 0 \<Longrightarrow> cmp a c \<le> 0"
  shows "sorted_wrt (\<lambda>a b. cmp a b \<le> 0) xs \<Longrightarrow> sorted_wrt (\<lambda>a b. cmp a b \<le> 0) (insert_sorted cmp x xs)"
proof (induction xs)
  case Nil
  then show ?case by simp
next
  case (Cons y ys)
  show ?case
  proof (cases "cmp x y \<le> 0")
    case True
    with Cons.prems tr show ?thesis by auto
  next
    case False
    with tot have "cmp y x \<le> 0" by blast
    with False Cons show ?thesis
      by (auto simp: set_insert_sorted)
  qed
qed

lemma sorted_array_sort:
  assumes tot: "\<And>a b. cmp a b \<le> 0 \<or> cmp b a \<le> 0"
    and tr: "\<And>a b c. cmp a b \<le> 0 \<Longrightarrow> cmp b c \<le> 0 \<Longrightarrow> cmp a c \<le> 0"
  shows "sorted_wrt (\<lambda>a b. cmp a b \<le> 0) (array_sort cmp xs)"
  by (induction xs) (auto intro: sorted_insert_sorted[OF tot tr])

lemma manageableOf_parsed:
  assumes "\<forall>g\<in>set gs. \<exists>p. BigInt (permissions g) = Inr p"
  shows "manageableOf lc gs botIds =
     Inr (array_sort (compareGuilds lc)
            (map (toManageable (set botIds)) (filter (\<lambda>g. canManageGuild g = Inr True) gs)))"
  by (simp add: manageableOf_def filter_canManage_parsed[OF assms])

lemma find_mg_id:
  assumes "\<forall>m\<in>set ms. hasBot m \<longleftrightarrow> mg_id m \<in> B"
  shows "(case find (\<lambda>g. mg_id g = gid) ms of
            None \<Rightarrow> Denied
          | Some guild \<Rightarrow> if \<not> hasBot guild then Denied else Authorized (mg_name guild)) \<noteq> Denied
         \<longleftrightarrow> gid \<in> B \<and> (\<exists>m\<in>set ms. mg_id m = gid)"
  using assms
  by (induction ms) auto

lemma find_mg_id_stats:
  assumes "\<forall>m\<in>set ms. hasBot m \<longleftrightarrow> mg_id m \<in> B"
  shows "(case find (\<lambda>g. mg_id g = gid) ms of None \<Rightarrow> False | Some guild \<Rightarrow> hasBot guild)
         \<longleftrightarrow> gid \<in> B \<and> (\<exists>m\<in>set ms. mg_id m = gid)"
  using assms
  by (induction ms) auto

lemma authorized_iff: "authorized a \<longleftrightarrow> a \<noteq> Denied"
  by (cases a) simp_all

lemma getManageableGuilds_tags:
  assumes "getManageableGuilds env tok = Inr ms"
  shows "\<forall>m\<in>set ms. hasBot m \<longleftrightarrow> mg_id m \<in> set (getBotGuilds env)"
  using assms
  by (auto simp: getManageableGuilds_def manageableOf_def set_array_sort toManageable_def
      split: sum.splits)

lemma find_found: "find P xs = Some x \<Longrightarrow> P x \<and> x \<in> set xs"
  by (induction xs) (auto split: if_splits)

lemma verifyAccess_needs_bot:
  assumes "verifyAccess env gid tok = Inr a" and "gid \<notin> set (getBotGuilds env)"
  shows "a = Denied"
proof (cases "getManageableGuilds env tok")
  case (Inl err)
  with assms show ?thesis by (simp add: verifyAccess_def)
next
  case (Inr ms)
  from getManageableGuilds_tags[OF Inr] assms(2)
  have "\<forall>m\<in>set ms. mg_id m = gid \<longrightarrow> \<not> hasBot m"
    by auto
  with assms(1) Inr show ?thesis
    by (auto simp: verifyAccess_def split: option.splits if_splits dest: find_found)
qed


lemma verifyAccess_stats_eq:
  "verifyAccess_stats env gid tok =
     (case verifyAccess env gid tok of Inl e \<Rightarrow> Inl e | Inr a \<Rightarrow> Inr (authorized a))"
  by (simp add: verifyAccess_stats_def verifyAccess_def split: sum.splits option.splits)

lemma BigInt_examples:
  "BigInt ''0'' = Inr 0" "BigInt ''1024'' = Inr 1024" "BigInt ''8'' = Inr 8"
  "BigInt ''1056'' = Inr 1056"
  by (simp_all add: BigInt_def StringToBigInt_def trim_def isWhiteSpace_def parse_digits_def)

lemma ex_parsed: "\<forall>g\<in>set ex_guilds. BigInt (permissions g) = Inr (ex_bitmask g)"
  by (simp add: ex_guilds_def ex_bitmask_def BigInt_examples)

lemma ex_fetched: "getUserGuilds ex_env ''token'' = Inr ex_guilds"
  by (simp add: getUserGuilds_def ex_env_def)

lemma ex_bots: "getBotGuilds ex_env = [''42'', ''7'', ''3'']"
  by (simp add: getBotGuilds_def ex_env_def ex_bot_guilds_def)

text \<open>
  Claim C1. Let the user's guild query succeed and let every permission string in its
  answer denote an integer, the bitmask. Then access verification for a guild returns,
  and it grants access exactly when the bot's guild list contains the guild and the user's
  list has an entry for the guild that carries the owner flag, or whose bitmask ANDed with
  the administrator flag 0x8 equals that flag, or whose bitmask ANDed with the manage-guild
  flag 0x20 equals that flag. The verifier of the stats route gives the same verdict.
  Whatever the queries answer, a guild outside the bot's guild list is never granted,
  by either verifier. The bot's guild list is the list of identifiers that the bot's
  query answers with, when it answers.
\<close>
theorem verifyAccess_authorized_iff:
  "(getUserGuilds env tok = Inr userGuilds
      \<and> (\<forall>g\<in>set userGuilds. BigInt (permissions g) = Inr (bitmask g)) \<longrightarrow>
      (\<exists>a. verifyAccess env gid tok = Inr a
         \<and> verifyAccess_stats env gid tok = Inr (authorized a)
         \<and> (authorized a \<longleftrightarrow>
              gid \<in> set (getBotGuilds env)
              \<and> (\<exists>g\<in>set userGuilds. dg_id g = gid
                    \<and> (owner g \<or> bitmask g AND 8 = 8 \<or> bitmask g AND 32 = 32)))))
   \<and> (gid \<notin> set (getBotGuilds env) \<longrightarrow>
        (\<forall>n. verifyAccess env gid tok \<noteq> Inr (Authorized n))
        \<and> verifyAccess_stats env gid tok \<noteq> Inr True)
   \<and> (\<forall>t gs. DISCORD_BOT_TOKEN env = Some t \<and> t \<noteq> [] \<and> botGuildsResponse env t = Ok gs \<longrightarrow>
        getBotGuilds env = map dg_id gs)"
proof -
  have main: "\<exists>a. verifyAccess env gid tok = Inr a
         \<and> verifyAccess_stats env gid tok = Inr (authorized a)
         \<and> (authorized a \<longleftrightarrow>
              gid \<in> set (getBotGuilds env)
              \<and> (\<exists>g\<in>set userGuilds. dg_id g = gid
                    \<and> (owner g \<or> bitmask g AND 8 = 8 \<or> bitmask g AND 32 = 32)))"
    if fetched: "getUserGuilds env tok = Inr userGuilds"
      and parsed: "\<forall>g\<in>set userGuilds. BigInt (permissions g) = Inr (bitmask g)"
  proof -
    define B where "B = set (getBotGuilds env)"
    define ms where "ms = array_sort (compareGuilds (localeCompare env))
              (map (toManageable B) (filter (\<lambda>g. canManageGuild g = Inr True) userGuilds))"
    from parsed have "\<forall>g\<in>set userGuilds. \<exists>p. BigInt (permissions g) = Inr p"
      by blast
    then have ms: "getManageableGuilds env tok = Inr ms"
      by (simp add: getManageableGuilds_def fetched manageableOf_parsed ms_def B_def)
    have tags: "\<forall>m\<in>set ms. hasBot m \<longleftrightarrow> mg_id m \<in> B"
      by (auto simp: ms_def set_array_sort toManageable_def)
    have ids: "(\<exists>m\<in>set ms. mg_id m = gid) \<longleftrightarrow>
        (\<exists>g\<in>set userGuilds. dg_id g = gid
            \<and> (owner g \<or> bitmask g AND 8 = 8 \<or> bitmask g AND 32 = 32))"
    proof -
      have can: "canManageGuild g = Inr True \<longleftrightarrow>
          owner g \<or> bitmask g AND 8 = 8 \<or> bitmask g AND 32 = 32" if "g \<in> set userGuilds" for g
        using parsed that by (simp only: canManageGuild_parsed sum.inject simp_thms)
      have "set ms = toManageable B ` {g \<in> set userGuilds. canManageGuild g = Inr True}"
        by (simp add: ms_def set_array_sort)
      moreover have "mg_id (toManageable B g) = dg_id g" for g
        by (simp add: toManageable_def)
      ultimately have "(\<exists>m\<in>set ms. mg_id m = gid) \<longleftrightarrow>
          (\<exists>g\<in>set userGuilds. canManageGuild g = Inr True \<and> dg_id g = gid)"
        by (simp only: bex_simps image_iff) blast
      also have "\<dots> \<longleftrightarrow> (\<exists>g\<in>set userGuilds. dg_id g = gid
            \<and> (owner g \<or> bitmask g AND 8 = 8 \<or> bitmask g AND 32 = 32))"
        using can by blast
      finally show ?thesis .
    qed
    define a where "a = (case find (\<lambda>g. mg_id g = gid) ms of
              None \<Rightarrow> Denied
            | Some guild \<Rightarrow> if \<not> hasBot guild then Denied else Authorized (mg_name guild))"
    have va: "verifyAccess env gid tok = Inr a"
      by (simp add: verifyAccess_def ms a_def split: option.splits)
    have auth: "authorized a \<longleftrightarrow> gid \<in> B \<and> (\<exists>m\<in>set ms. mg_id m = gid)"
      unfolding authorized_iff a_def by (rule find_mg_id[OF tags])
    have vs: "verifyAccess_stats env gid tok = Inr (authorized a)"
      by (simp add: verifyAccess_stats_eq va)
    from va vs auth ids show ?thesis
      unfolding B_def by blast
  qed
  have absent: "(\<forall>n. verifyAccess env gid tok \<noteq> Inr (Authorized n))
        \<and> verifyAccess_stats env gid tok \<noteq> Inr True"
    if "gid \<notin> set (getBotGuilds env)"
  proof -
    have never: "verifyAccess env gid tok \<noteq> Inr (Authorized n)" for n
      using verifyAccess_needs_bot[OF _ that, of tok "Authorized n"] by auto
    have "verifyAccess_stats env gid tok \<noteq> Inr True"
    proof (cases "verifyAccess env gid tok")
      case (Inl err)
      then show ?thesis by (simp add: verifyAccess_stats_eq)
    next
      case (Inr b)
      with never have "b = Denied" by (cases b) auto
      with Inr show ?thesis by (simp add: verifyAccess_stats_eq)
    qed
    with never show ?thesis by blast
  qed
  have list: "\<forall>t gs. DISCORD_BOT_TOKEN env = Some t \<and> t \<noteq> [] \<and> botGuildsResponse env t = Ok gs \<longrightarrow>
        getBotGuilds env = map dg_id gs"
    by (simp add: getBotGuilds_def)
  show ?thesis
  proof (intro conjI)
    show "getUserGuilds env tok = Inr userGuilds
      \<and> (\<forall>g\<in>set userGuilds. BigInt (permissions g) = Inr (bitmask g)) \<longrightarrow>
      (\<exists>a. verifyAccess env gid tok = Inr a
         \<and> verifyAccess_stats env gid tok = Inr (authorized a)
         \<and> (authorized a \<longleftrightarrow>
              gid \<in> set (getBotGuilds env)
              \<and> (\<exists>g\<in>set userGuilds. dg_id g = gid
                    \<and> (owner g \<or> bitmask g AND 8 = 8 \<or> bitmask g AND 32 = 32))))"
      using main by (intro impI) (elim conjE)
    show "gid \<notin> set (getBotGuilds env) \<longrightarrow>
        (\<forall>n. verifyAccess env gid tok \<noteq> Inr (Authorized n))
        \<and> verifyAccess_stats env gid tok \<noteq> Inr True"
      using absent by (intro impI)
    show "\<forall>t gs. DISCORD_BOT_TOKEN env = Some t \<and> t \<noteq> [] \<and> botGuildsResponse env t = Ok gs \<longrightarrow>
        getBotGuilds env = map dg_id gs"
      by (rule list)
  qed
qed

theorem verifyAccess_authorized_iff_witness:
  "getUserGuilds ex_env ''token'' = Inr ex_guilds
   \<and> getBotGuilds ex_env = [''42'', ''7'', ''3'']
   \<and> (\<exists>a. verifyAccess ex_env ''42'' ''token'' = Inr a \<and> authorized a)
   \<and> (\<exists>a. verifyAccess ex_env ''3'' ''token'' = Inr a \<and> authorized a)
   \<and> (\<exists>a. verifyAccess ex_env ''7'' ''token'' = Inr a \<and> \<not> authorized a)
   \<and> (\<exists>a. verifyAccess ex_env ''5'' ''token'' = Inr a \<and> \<not> authorized a)"
proof -
  have pre: "getUserGuilds ex_env ''token'' = Inr ex_guilds
      \<and> (\<forall>g\<in>set ex_guilds. BigInt (permissions g) = Inr (ex_bitmask g))"
    using ex_fetched ex_parsed by blast
  note claim = verifyAccess_authorized_iff[where env = ex_env and tok = "''token''" and userGuilds = ex_guilds
      and bitmask = ex_bitmask, THEN conjunct1, rule_format, OF pre]
  have a: "\<exists>a. verifyAccess ex_env ''42'' ''token'' = Inr a \<and> authorized a"
    using claim[of "''42''"]
    by (simp add: ex_bots ex_guilds_def ex_bitmask_def BigInt_examples) blast
  have b: "\<exists>a. verifyAccess ex_env ''3'' ''token'' = Inr a \<and> authorized a"
    using claim[of "''3''"]
    by (simp add: ex_bots ex_guilds_def ex_bitmask_def BigInt_examples) blast
  have c: "\<exists>a. verifyAccess ex_env ''7'' ''token'' = Inr a \<and> \<not> authorized a"
    using claim[of "''7''"]
    by (simp add: ex_bots ex_guilds_def ex_bitmask_def BigInt_examples) blast
  have d: "\<exists>a. verifyAccess ex_env ''5'' ''token'' = Inr a \<and> \<not> authorized a"
    using claim[of "''5''"]
    by (simp add: ex_bots ex_guilds_def ex_bitmask_def BigInt_examples) blast
  from a b c d ex_fetched ex_bots show ?thesis by blast
qed

subsection \<open>The list of manageable guilds\<close>

lemma compareGuilds_total:
  assumes "\<forall>a b. lc a b \<le> 0 \<or> lc b a \<le> 0"
  shows "compareGuilds lc a b \<le> 0 \<or> compareGuilds lc b a \<le> 0"
proof -
  from assms have "lc (mg_name a) (mg_name b) \<le> 0 \<or> lc (mg_name b) (mg_name a) \<le> 0"
    by blast
  then show ?thesis
    by (cases "hasBot a"; cases "hasBot b") (simp_all add: compareGuilds_def)
qed

lemma compareGuilds_trans:
  assumes tr: "\<forall>a b c. lc a b \<le> 0 \<longrightarrow> lc b c \<le> 0 \<longrightarrow> lc a c \<le> 0"
    and ab: "compareGuilds lc a b \<le> 0" and bc: "compareGuilds lc b c \<le> 0"
  shows "compareGuilds lc a c \<le> 0"
proof -
  have names: "lc (mg_name a) (mg_name b) \<le> 0 \<Longrightarrow> lc (mg_name b) (mg_name c) \<le> 0
      \<Longrightarrow> lc (mg_name a) (mg_name c) \<le> 0"
    using tr by blast
  from ab bc names show ?thesis
    by (cases "hasBot a"; cases "hasBot b"; cases "hasBot c")
      (simp_all add: compareGuilds_def)
qed

lemma compareGuilds_le_0:
  "compareGuilds lc a b \<le> 0 \<Longrightarrow>
   (hasBot b \<longrightarrow> hasBot a) \<and> (hasBot a = hasBot b \<longrightarrow> lc (mg_name a) (mg_name b) \<le> 0)"
  by (auto simp: compareGuilds_def split: if_splits)

lemma ex_total: "\<forall>a b. localeCompare ex_env a b \<le> 0 \<or> localeCompare ex_env b a \<le> 0"
  by (auto simp: ex_env_def ex_localeCompare_def)

lemma ex_trans: "\<forall>a b c. localeCompare ex_env a b \<le> 0 \<longrightarrow> localeCompare ex_env b c \<le> 0
                  \<longrightarrow> localeCompare ex_env a c \<le> 0"
  by (auto simp: ex_env_def ex_localeCompare_def split: if_splits)

lemma ex_parsed': "\<forall>g\<in>set ex_guilds. \<exists>p. BigInt (permissions g) = Inr p"
  using ex_parsed by blast

lemma ex_lc: "localeCompare ex_env = ex_localeCompare"
  by (simp add: ex_env_def)

lemma ex_manageable: "getManageableGuilds ex_env ''token'' =
       Inr [\<lparr>mg_id = ''3'', mg_name = ''Alpha'', mg_icon = Some ''a_1f'', hasBot = True\<rparr>,
            \<lparr>mg_id = ''42'', mg_name = ''Test Guild'', mg_icon = None, hasBot = True\<rparr>,
            \<lparr>mg_id = ''5'', mg_name = ''Gamma'', mg_icon = None, hasBot = False\<rparr>]"
  by (simp add: getManageableGuilds_def ex_fetched ex_bots manageableOf_def ex_guilds_def
      canManageGuild_def BigInt_examples ADMINISTRATOR_def MANAGE_GUILD_def toManageable_def
      compareGuilds_def ex_lc ex_localeCompare_def)

text \<open>
  Claim C8. Let the user's guild query succeed, let every permission string denote an
  integer, and let \<open>localeCompare\<close> be a consistent comparator (total and transitive),
  as the language requires of it. Then \<open>getManageableGuilds\<close> returns exactly the
  user's guilds that \<open>canManageGuild\<close> accepts, each projected to identifier, name and
  icon and tagged \<open>hasBot\<close> iff the bot's guild set contains its identifier; in the
  result every guild with the bot precedes every guild without it, and within each of
  the two groups the names ascend under \<open>localeCompare\<close>.
\<close>
theorem getManageableGuilds_selected_sorted:
  assumes fetched: "getUserGuilds env tok = Inr userGuilds"
    and parsed: "\<forall>g\<in>set userGuilds. \<exists>p. BigInt (permissions g) = Inr p"
    and total: "\<forall>a b. localeCompare env a b \<le> 0 \<or> localeCompare env b a \<le> 0"
    and trans: "\<forall>a b c. localeCompare env a b \<le> 0 \<longrightarrow> localeCompare env b c \<le> 0
                  \<longrightarrow> localeCompare env a c \<le> 0"
  shows "\<exists>res. getManageableGuilds env tok = Inr res
    \<and> mset res = mset (map (toManageable (set (getBotGuilds env)))
                         (filter (\<lambda>g. canManageGuild g = Inr True) userGuilds))
    \<and> (\<forall>m\<in>set res. hasBot m \<longleftrightarrow> mg_id m \<in> set (getBotGuilds env))
    \<and> sorted_wrt (\<lambda>a b. (hasBot b \<longrightarrow> hasBot a)
                     \<and> (hasBot a = hasBot b \<longrightarrow>
                          localeCompare env (mg_name a) (mg_name b) \<le> 0)) res"
proof -
  define cmp where "cmp = compareGuilds (localeCompare env)"
  define res where "res = array_sort cmp
            (map (toManageable (set (getBotGuilds env)))
               (filter (\<lambda>g. canManageGuild g = Inr True) userGuilds))"
  have returned: "getManageableGuilds env tok = Inr res"
    by (simp add: getManageableGuilds_def fetched manageableOf_parsed[OF parsed] res_def cmp_def)
  have same: "mset res = mset (map (toManageable (set (getBotGuilds env)))
                         (filter (\<lambda>g. canManageGuild g = Inr True) userGuilds))"
    by (simp add: res_def mset_array_sort)
  have tags: "\<forall>m\<in>set res. hasBot m \<longleftrightarrow> mg_id m \<in> set (getBotGuilds env)"
    by (auto simp: res_def set_array_sort toManageable_def)
  have "sorted_wrt (\<lambda>a b. cmp a b \<le> 0) res"
    unfolding res_def
  proof (rule sorted_array_sort)
    show "cmp a b \<le> 0 \<or> cmp b a \<le> 0" for a b
      unfolding cmp_def by (rule compareGuilds_total[OF total])
    show "cmp a b \<le> 0 \<Longrightarrow> cmp b c \<le> 0 \<Longrightarrow> cmp a c \<le> 0" for a b c
      unfolding cmp_def by (rule compareGuilds_trans[OF trans])
  qed
  then have ordered: "sorted_wrt (\<lambda>a b. (hasBot b \<longrightarrow> hasBot a)
                     \<and> (hasBot a = hasBot b \<longrightarrow>
                          localeCompare env (mg_name a) (mg_name b) \<le> 0)) res"
    by (rule sorted_wrt_mono_rel[rotated]) (simp add: cmp_def compareGuilds_le_0)
  from returned same tags ordered show ?thesis by blast
qed

theorem getManageableGuilds_selected_sorted_witness:
  "getUserGuilds ex_env ''token'' = Inr ex_guilds
   \<and> getManageableGuilds ex_env ''token'' =
       Inr [\<lparr>mg_id = ''3'', mg_name = ''Alpha'', mg_icon = Some ''a_1f'', hasBot = True\<rparr>,
            \<lparr>mg_id = ''42'', mg_name = ''Test Guild'', mg_icon = None, hasBot = True\<rparr>,
            \<lparr>mg_id = ''5'', mg_name = ''Gamma'', mg_icon = None, hasBot = False\<rparr>]"
  using getManageableGuilds_selected_sorted[OF ex_fetched ex_parsed' ex_total ex_trans] ex_fetched ex_manageable
  by simp

section \<open>The configuration store\<close>

lemma getGuildConfig_None_iff:
  "getGuildConfig w gid = None \<longleftrightarrow>
     configFiles w gid = None \<or> configFiles w gid = Some NotJson
     \<or> configFiles w gid = Some JsonFalsy"
  by (auto simp: getGuildConfig_def split: option.splits json_file.splits)

lemma getGuildConfig_Some_iff:
  "getGuildConfig w gid = Some c \<longleftrightarrow> configFiles w gid = Some (Json c)"
  by (auto simp: getGuildConfig_def split: option.splits json_file.splits)

lemma getOrCreate_existing:
  "getGuildConfig w gid = Some c \<Longrightarrow> getOrCreateGuildConfig w gid gname = (Inr c, w)"
  by (simp add: getOrCreateGuildConfig_def)

lemma getOrCreate_absent:
  "getGuildConfig w gid = None \<Longrightarrow>
   getOrCreateGuildConfig w gid gname =
     (if writeFails w (Suc (step w))
      then (Inl WriteFailed, w\<lparr>step := Suc (Suc (step w))\<rparr>)
      else (Inr (newConfig gid gname (clock w (step w))),
            w\<lparr>configFiles := (configFiles w)(gid \<mapsto> Json (newConfig gid gname (clock w (step w)))),
              step := Suc (Suc (step w))\<rparr>))"
  by (simp add: getOrCreateGuildConfig_def now_toISOString_def saveGuildConfig_def newConfig_def)

lemma stampAndSave_eq:
  "stampAndSave w c actor =
     (if writeFails w (Suc (step w))
      then (Inl WriteFailed, w\<lparr>step := Suc (Suc (step w))\<rparr>)
      else (Inr (c\<lparr>updatedAt := clock w (step w), updatedBy := actor\<rparr>),
            w\<lparr>configFiles := (configFiles w)(guildId c \<mapsto> Json (c\<lparr>updatedAt := clock w (step w), updatedBy := actor\<rparr>)),
              step := Suc (Suc (step w))\<rparr>))"
  by (simp add: stampAndSave_def now_toISOString_def saveGuildConfig_def)

lemma ex_step1: "getOrCreateGuildConfig ex_world0 ''42'' ''Test Guild'' = (Inr ex_config, ex_world1)"
  by (simp add: getOrCreate_absent getGuildConfig_def ex_world0_def ex_world1_def ex_config_def)

lemma ex_stored: "getGuildConfig ex_world1 ''42'' = Some ex_config"
  by (simp add: getGuildConfig_def ex_world1_def)

lemma ex_stored_readonly: "getGuildConfig ex_world_readonly ''42'' = Some ex_config"
  by (simp add: getGuildConfig_def ex_world_readonly_def ex_world1_def)

lemma ex_world1_fields:
  "step ex_world1 = 2" "writeFails ex_world1 n = False" "clock ex_world1 n = ex_time"
  by (simp_all add: ex_world1_def ex_world0_def)

lemma ex_world_readonly_fields:
  "step ex_world_readonly = 2" "writeFails ex_world_readonly n = True"
  by (simp_all add: ex_world_readonly_def ex_world1_def ex_world0_def)

text \<open>
  Claim C4. For a guild whose configuration file is missing, does not parse, or parses
  to a falsy value, \<open>getOrCreateGuildConfig\<close> reads the clock and writes once. When that write succeeds
  it returns the record with the given identifier and name, the built-in default settings
  and commands, no prompt, the actor \<open>system\<close> and the clock reading as time stamp,
  and the guild's file then holds that record while all other files are as before. A
  file that does not parse leads to the same result as a missing file; the only error the
  operation can end in is the failure of its write.
\<close>
theorem getOrCreate_creates_default:
  assumes "configFiles w gid = None \<or> configFiles w gid = Some NotJson
      \<or> configFiles w gid = Some JsonFalsy"
  shows "(writeFails w (Suc (step w)) \<longrightarrow> fst (getOrCreateGuildConfig w gid gname) = Inl WriteFailed)
    \<and> (\<not> writeFails w (Suc (step w)) \<longrightarrow>
         (\<exists>c w'. getOrCreateGuildConfig w gid gname = (Inr c, w')
            \<and> guildId c = gid \<and> guildName c = gname
            \<and> settings c = DEFAULT_SETTINGS \<and> commands c = DEFAULT_COMMANDS
            \<and> systemPrompt c = None \<and> updatedBy c = ''system''
            \<and> updatedAt c = clock w (step w)
            \<and> configFiles w' gid = Some (Json c)
            \<and> (\<forall>k. k \<noteq> gid \<longrightarrow> configFiles w' k = configFiles w k)))"
proof -
  from assms have "getGuildConfig w gid = None"
    by (simp add: getGuildConfig_None_iff)
  then show ?thesis
    by (simp add: getOrCreate_absent newConfig_def)
qed

theorem getOrCreate_creates_default_witness:
  "configFiles ex_world0 ''42'' = None
   \<and> configFiles ex_world_corrupt ''42'' = Some NotJson
   \<and> \<not> writeFails ex_world0 (Suc (step ex_world0))
   \<and> (\<exists>c w'. getOrCreateGuildConfig ex_world0 ''42'' ''Test Guild'' = (Inr c, w')
         \<and> c = newConfig ''42'' ''Test Guild'' ex_time
         \<and> configFiles w' ''42'' = Some (Json c))
   \<and> (\<exists>c w'. getOrCreateGuildConfig ex_world_corrupt ''42'' ''Test Guild'' = (Inr c, w')
         \<and> c = newConfig ''42'' ''Test Guild'' ex_time
         \<and> configFiles w' ''42'' = Some (Json c))"
  using getOrCreate_creates_default[of ex_world0 "''42''" "''Test Guild''"] getOrCreate_creates_default[of ex_world_corrupt "''42''" "''Test Guild''"]
  by (auto simp: ex_world0_def ex_world_corrupt_def newConfig_def)

text \<open>
  Claim C5. \<open>getOrCreateGuildConfig\<close> is idempotent: when a call returns a record,
  the same call on the world it left returns the very same record and changes nothing.
\<close>
theorem getOrCreate_idempotent:
  assumes "getOrCreateGuildConfig w gid gname = (Inr c, w')"
  shows "getOrCreateGuildConfig w' gid gname = (Inr c, w')"
proof (cases "getGuildConfig w gid")
  case None
  with assms have "getGuildConfig w' gid = Some c"
    by (auto simp: getOrCreate_absent getGuildConfig_Some_iff split: if_splits)
  then show ?thesis by (rule getOrCreate_existing)
next
  case (Some a)
  with assms show ?thesis by (simp add: getOrCreate_existing)
qed

theorem getOrCreate_idempotent_witness:
  "getOrCreateGuildConfig ex_world0 ''42'' ''Test Guild'' = (Inr ex_config, ex_world1)
   \<and> getOrCreateGuildConfig ex_world1 ''42'' ''Test Guild'' = (Inr ex_config, ex_world1)"
  using getOrCreate_idempotent[of ex_world0 "''42''" "''Test Guild''" ex_config ex_world1] ex_step1
  by simp

text \<open>
  Claim C6, as amended. For an existing record and a partial settings object,
  \<open>updateGuildSettings\<close> reads the clock and writes once; when the write succeeds, each
  settings field named in the partial object has the value given there, each field not
  named keeps its prior value, commands, prompt, guild identifier and guild name are
  unchanged, \<open>updatedBy\<close> is the actor, \<open>updatedAt\<close> is the clock reading, and the
  record is stored. (The time stamp is the current reading; it is not compared with the
  prior one.)
\<close>
theorem updateGuildSettings_frame:
  assumes "getGuildConfig w gid = Some c"
  shows "(writeFails w (Suc (step w)) \<longrightarrow>
            fst (updateGuildSettings w gid gname (Some p) actor) = Inl WriteFailed)
    \<and> (\<not> writeFails w (Suc (step w)) \<longrightarrow>
         (\<exists>c' w'. updateGuildSettings w gid gname (Some p) actor = (Inr c', w')
            \<and> maxTokensPerChannel (settings c') =
                 (case p_maxTokensPerChannel p of None \<Rightarrow> maxTokensPerChannel (settings c) | Some v \<Rightarrow> v)
            \<and> messageExpiryDays (settings c') =
                 (case p_messageExpiryDays p of None \<Rightarrow> messageExpiryDays (settings c) | Some v \<Rightarrow> v)
            \<and> charsPerTokenEstimate (settings c') =
                 (case p_charsPerTokenEstimate p of None \<Rightarrow> charsPerTokenEstimate (settings c) | Some v \<Rightarrow> v)
            \<and> maxResponseTokens (settings c') =
                 (case p_maxResponseTokens p of None \<Rightarrow> maxResponseTokens (settings c) | Some v \<Rightarrow> v)
            \<and> scoreThreshold (settings c') =
                 (case p_scoreThreshold p of None \<Rightarrow> scoreThreshold (settings c) | Some v \<Rightarrow> v)
            \<and> rateLimitSeconds (settings c') =
                 (case p_rateLimitSeconds p of None \<Rightarrow> rateLimitSeconds (settings c) | Some v \<Rightarrow> v)
            \<and> temperature (settings c') =
                 (case p_temperature p of None \<Rightarrow> temperature (settings c) | Some v \<Rightarrow> v)
            \<and> model (settings c') =
                 (case p_model p of None \<Rightarrow> model (settings c) | Some v \<Rightarrow> v)
            \<and> skipCategories (settings c') =
                 (case p_skipCategories p of None \<Rightarrow> skipCategories (settings c) | Some v \<Rightarrow> v)
            \<and> commands c' = commands c \<and> systemPrompt c' = systemPrompt c
            \<and> guildId c' = guildId c \<and> guildName c' = guildName c
            \<and> updatedBy c' = actor \<and> updatedAt c' = clock w (step w)
            \<and> configFiles w' (guildId c) = Some (Json c')))"
  using assms
  by (simp add: updateGuildSettings_def getOrCreate_existing stampAndSave_eq
      spreadSettings_def or_else_def)

theorem updateGuildSettings_frame_witness:
  "getGuildConfig ex_world1 ''42'' = Some ex_config
   \<and> \<not> writeFails ex_world1 (Suc (step ex_world1))
   \<and> (\<exists>c' w'. updateGuildSettings ex_world1 ''42'' ''Test Guild'' (Some ex_partial) ''1001'' = (Inr c', w')
         \<and> temperature (settings c') = 1 / 2
         \<and> scoreThreshold (settings c') = 8
         \<and> model (settings c') = ''claude-sonnet-4-5-20250929''
         \<and> commands c' = DEFAULT_COMMANDS \<and> systemPrompt c' = None
         \<and> updatedBy c' = ''1001'' \<and> updatedAt c' = ex_time
         \<and> configFiles w' ''42'' = Some (Json c'))"
proof -
  have pre: "getGuildConfig ex_world1 ''42'' = Some ex_config"
    by (simp add: getGuildConfig_def ex_world1_def)
  have ok: "\<not> writeFails ex_world1 (Suc (step ex_world1))"
    by (simp add: ex_world1_def ex_world0_def)
  from updateGuildSettings_frame[OF pre, of "''Test Guild''" ex_partial "''1001''"] ok pre show ?thesis
    by (auto simp: ex_partial_def ex_config_def newConfig_def DEFAULT_SETTINGS_def
        ex_world1_def ex_world0_def)
qed

text \<open>
  Claim C6 as stated fails: the record of guild 42 was stamped in the millisecond in which
  the update reads the clock, so \<open>updatedAt\<close> does not increase.
\<close>
theorem updatedAt_not_strictly_increasing:
  "getGuildConfig ex_world1 ''42'' = Some ex_config
   \<and> (case updateGuildSettings ex_world1 ''42'' ''Test Guild'' (Some ex_partial) ''1001'' of
         (Inl e, w') \<Rightarrow> False
       | (Inr c', w') \<Rightarrow> \<not> updatedAt ex_config < updatedAt c')"
  by (simp add: updateGuildSettings_def getOrCreate_existing stampAndSave_eq getGuildConfig_def
      ex_world1_def ex_world0_def ex_config_def newConfig_def)

subsection \<open>Guild identity\<close>

lemma getOrCreate_keeps:
  assumes "keeps gid n w"
  shows "case getOrCreateGuildConfig w k gname of
           (r, w1) \<Rightarrow> keeps gid n w1
             \<and> (\<forall>e. r = Inr e \<longrightarrow> guildId e = k \<and> (k = gid \<longrightarrow> guildName e = n))"
proof (cases "getGuildConfig w k")
  case None
  then have "k \<noteq> gid"
    using assms by (auto simp: keeps_def getGuildConfig_None_iff)
  with None assms show ?thesis
    by (auto simp: getOrCreate_absent keeps_def files_match_ids_def newConfig_def)
next
  case (Some e)
  with assms show ?thesis
    by (auto simp: getOrCreate_existing keeps_def files_match_ids_def getGuildConfig_Some_iff)
qed

lemma stampAndSave_keeps:
  assumes "keeps gid n w" and "guildId e = gid \<longrightarrow> guildName e = n"
  shows "keeps gid n (snd (stampAndSave w e actor))"
  using assms by (auto simp: stampAndSave_eq keeps_def files_match_ids_def)

lemma update_keeps:
  assumes inv: "keeps gid n w"
    and same: "\<And>e. guildId (f e) = guildId e \<and> guildName (f e) = guildName e"
  shows "keeps gid n (snd (case getOrCreateGuildConfig w k gname of
                             (Inl e, w1) \<Rightarrow> (Inl e, w1)
                           | (Inr config, w1) \<Rightarrow> stampAndSave w1 (f config) actor))"
proof -
  obtain r w1 where gc: "getOrCreateGuildConfig w k gname = (r, w1)"
    by (cases "getOrCreateGuildConfig w k gname")
  from getOrCreate_keeps[OF inv, of k gname] gc
  have inv1: "keeps gid n w1"
    and ids: "\<And>e. r = Inr e \<Longrightarrow> guildId e = k \<and> (k = gid \<longrightarrow> guildName e = n)"
    by simp_all
  show ?thesis
  proof (cases r)
    case (Inl err)
    with gc inv1 show ?thesis by simp
  next
    case (Inr e)
    from ids[OF Inr] same[of e] have "guildId (f e) = gid \<longrightarrow> guildName (f e) = n"
      by simp
    from stampAndSave_keeps[OF inv1 this] gc Inr show ?thesis by simp
  qed
qed

lemma perform_keeps:
  assumes "keeps gid n w"
  shows "keeps gid n (snd (perform w call))"
proof (cases call)
  case (GetOrCreate k gname)
  obtain r w1 where "getOrCreateGuildConfig w k gname = (r, w1)"
    by (cases "getOrCreateGuildConfig w k gname")
  with getOrCreate_keeps[OF assms, of k gname] GetOrCreate show ?thesis
    by simp
next
  case (UpdateSettings k gname partial actor)
  have "keeps gid n (snd (updateGuildSettings w k gname partial actor))"
    unfolding updateGuildSettings_def
    by (rule update_keeps[OF assms]) simp
  with UpdateSettings show ?thesis by simp
next
  case (UpdateCommands k gname partial actor)
  have "keeps gid n (snd (updateGuildCommands w k gname partial actor))"
    unfolding updateGuildCommands_def
    by (rule update_keeps[OF assms]) simp
  with UpdateCommands show ?thesis by simp
next
  case (UpdatePrompt k gname prompt actor)
  have "keeps gid n (snd (updateGuildPrompt w k gname prompt actor))"
    unfolding updateGuildPrompt_def
    by (rule update_keeps[OF assms]) simp
  with UpdatePrompt show ?thesis by simp
qed

lemma run_calls_keeps: "keeps gid n w \<Longrightarrow> keeps gid n (run_calls w calls)"
  by (induction calls arbitrary: w) (auto intro: perform_keeps)

lemma stampAndSave_ids:
  "stampAndSave w e actor = (Inr c', w') \<Longrightarrow> guildId c' = guildId e \<and> guildName c' = guildName e"
  by (auto simp: stampAndSave_eq split: if_splits)

text \<open>
  Claim C10. Once a guild has a record, \<open>getOrCreateGuildConfig\<close> with any display
  name returns that record and changes nothing, and the records returned by the three
  updates, whatever display name they are passed, carry the identifier and the name of
  the existing record. When every file holds the record of the guild it is named after,
  then after any run of store calls, on any guilds and with any names, the guild's file
  still holds a record with that identifier and that name.
\<close>
theorem guild_identity_preserved:
  assumes "getGuildConfig w gid = Some c"
  shows "getOrCreateGuildConfig w gid gname = (Inr c, w)
    \<and> (\<forall>c' w'. updateGuildSettings w gid gname ps actor = (Inr c', w') \<longrightarrow>
          guildId c' = guildId c \<and> guildName c' = guildName c)
    \<and> (\<forall>c' w'. updateGuildCommands w gid gname pc actor = (Inr c', w') \<longrightarrow>
          guildId c' = guildId c \<and> guildName c' = guildName c)
    \<and> (\<forall>c' w'. updateGuildPrompt w gid gname pp actor = (Inr c', w') \<longrightarrow>
          guildId c' = guildId c \<and> guildName c' = guildName c)
    \<and> (files_match_ids w \<longrightarrow>
          (\<exists>c'. getGuildConfig (run_calls w calls) gid = Some c'
             \<and> guildId c' = guildId c \<and> guildName c' = guildName c))"
proof -
  have existing: "getOrCreateGuildConfig w gid gname = (Inr c, w)"
    using assms by (rule getOrCreate_existing)
  have settings: "\<forall>c' w'. updateGuildSettings w gid gname ps actor = (Inr c', w') \<longrightarrow>
          guildId c' = guildId c \<and> guildName c' = guildName c"
    by (auto simp: updateGuildSettings_def existing dest!: stampAndSave_ids)
  have commands: "\<forall>c' w'. updateGuildCommands w gid gname pc actor = (Inr c', w') \<longrightarrow>
          guildId c' = guildId c \<and> guildName c' = guildName c"
    by (auto simp: updateGuildCommands_def existing dest!: stampAndSave_ids)
  have prompt: "\<forall>c' w'. updateGuildPrompt w gid gname pp actor = (Inr c', w') \<longrightarrow>
          guildId c' = guildId c \<and> guildName c' = guildName c"
    by (auto simp: updateGuildPrompt_def existing dest!: stampAndSave_ids)
  have later: "\<exists>c'. getGuildConfig (run_calls w calls) gid = Some c'
          \<and> guildId c' = guildId c \<and> guildName c' = guildName c"
    if wf: "files_match_ids w"
  proof -
    have "keeps gid (guildName c) w"
      using assms wf by (simp add: keeps_def getGuildConfig_Some_iff)
    then have "keeps gid (guildName c) (run_calls w calls)"
      by (rule run_calls_keeps)
    moreover have "guildId c = gid"
      using assms wf by (simp add: files_match_ids_def getGuildConfig_Some_iff)
    ultimately show ?thesis
      by (auto simp: keeps_def files_match_ids_def getGuildConfig_Some_iff)
  qed
  from existing settings commands prompt later show ?thesis by blast
qed

theorem guild_identity_preserved_witness:
  "files_match_ids ex_world1
   \<and> getGuildConfig ex_world1 ''42'' = Some ex_config
   \<and> getOrCreateGuildConfig ex_world1 ''42'' ''Renamed'' = (Inr ex_config, ex_world1)
   \<and> (\<exists>c'. getGuildConfig
               (run_calls ex_world1
                  [UpdatePrompt ''42'' ''Renamed'' (Some ''Be brief.'') ''1001'',
                   UpdateSettings ''42'' ''Again'' (Some ex_partial) ''1002'',
                   GetOrCreate ''42'' ''Third'']) ''42'' = Some c'
         \<and> guildId c' = ''42'' \<and> guildName c' = ''Test Guild'')"
proof -
  have wf: "files_match_ids ex_world1"
    by (simp add: files_match_ids_def ex_world1_def ex_config_def newConfig_def)
  have ids: "guildId ex_config = ''42''" "guildName ex_config = ''Test Guild''"
    by (simp_all add: ex_config_def newConfig_def)
  from guild_identity_preserved[OF ex_stored, of "''Renamed''" None "''x''" None None
      "[UpdatePrompt ''42'' ''Renamed'' (Some ''Be brief.'') ''1001'',
        UpdateSettings ''42'' ''Again'' (Some ex_partial) ''1002'',
        GetOrCreate ''42'' ''Third'']"] wf ex_stored ids
  show ?thesis by simp
qed

section \<open>The stats reader\<close>

text \<open>
  Claim C7, as amended. \<open>getGuildStats\<close> returns the no-data signal exactly when the
  stats artifact is missing, does not parse, or parses to a falsy value (\<open>null\<close>,
  \<open>false\<close>, \<open>0\<close> or the empty string). When the artifact holds a stats object that
  has no entry for the guild, the result has zero counters and last activity
  \<open>Never\<close>, and its uptime and latency are those of the artifact (\<open>Unknown\<close> and
  zero where the artifact lacks them). When the object has an entry for the guild, the
  counters and the last activity are the entry's (zero and \<open>Never\<close> where the entry
  lacks them).
\<close>
theorem getGuildStats_no_data:
  "(getGuildStats w gid = None \<longleftrightarrow>
      statsFile w = None \<or> statsFile w = Some NotJson \<or> statsFile w = Some JsonFalsy)
   \<and> (\<forall>stats. statsFile w = Some (Json stats)
         \<and> (case bs_guilds stats of None \<Rightarrow> None | Some gs \<Rightarrow> gs gid) = None \<longrightarrow>
       getGuildStats w gid =
         Some \<lparr>messagesCached = 0, tokensUsed = 0, lastActivity = ''Never'',
               botUptime = (case bs_uptime stats of None \<Rightarrow> ''Unknown'' | Some u \<Rightarrow> u),
               botLatency = (case bs_latency stats of None \<Rightarrow> 0 | Some l \<Rightarrow> l)\<rparr>)
   \<and> (\<forall>stats usage. statsFile w = Some (Json stats)
         \<and> (case bs_guilds stats of None \<Rightarrow> None | Some gs \<Rightarrow> gs gid) = Some usage \<longrightarrow>
       getGuildStats w gid =
         Some \<lparr>messagesCached = (case u_messagesCached usage of None \<Rightarrow> 0 | Some n \<Rightarrow> n),
               tokensUsed = (case u_tokensUsed usage of None \<Rightarrow> 0 | Some n \<Rightarrow> n),
               lastActivity = (case u_lastActivity usage of None \<Rightarrow> ''Never'' | Some t \<Rightarrow> t),
               botUptime = (case bs_uptime stats of None \<Rightarrow> ''Unknown'' | Some u \<Rightarrow> u),
               botLatency = (case bs_latency stats of None \<Rightarrow> 0 | Some l \<Rightarrow> l)\<rparr>)"
proof (intro conjI allI impI)
  show "getGuildStats w gid = None \<longleftrightarrow>
      statsFile w = None \<or> statsFile w = Some NotJson \<or> statsFile w = Some JsonFalsy"
    by (auto simp: getGuildStats_def getBotStats_def Let_def
        split: option.splits json_file.splits)
next
  fix stats
  assume "statsFile w = Some (Json stats)
         \<and> (case bs_guilds stats of None \<Rightarrow> None | Some gs \<Rightarrow> gs gid) = None"
  then show "getGuildStats w gid =
         Some \<lparr>messagesCached = 0, tokensUsed = 0, lastActivity = ''Never'',
               botUptime = (case bs_uptime stats of None \<Rightarrow> ''Unknown'' | Some u \<Rightarrow> u),
               botLatency = (case bs_latency stats of None \<Rightarrow> 0 | Some l \<Rightarrow> l)\<rparr>"
    by (simp add: getGuildStats_def getBotStats_def or_else_def Let_def)
next
  fix stats usage
  assume "statsFile w = Some (Json stats)
         \<and> (case bs_guilds stats of None \<Rightarrow> None | Some gs \<Rightarrow> gs gid) = Some usage"
  then show "getGuildStats w gid =
         Some \<lparr>messagesCached = (case u_messagesCached usage of None \<Rightarrow> 0 | Some n \<Rightarrow> n),
               tokensUsed = (case u_tokensUsed usage of None \<Rightarrow> 0 | Some n \<Rightarrow> n),
               lastActivity = (case u_lastActivity usage of None \<Rightarrow> ''Never'' | Some t \<Rightarrow> t),
               botUptime = (case bs_uptime stats of None \<Rightarrow> ''Unknown'' | Some u \<Rightarrow> u),
               botLatency = (case bs_latency stats of None \<Rightarrow> 0 | Some l \<Rightarrow> l)\<rparr>"
    by (simp add: getGuildStats_def getBotStats_def or_else_def Let_def)
qed

theorem getGuildStats_no_data_witness:
  "getGuildStats ex_world0 ''42'' = None
   \<and> getGuildStats ex_world_null_stats ''42'' = None
   \<and> getGuildStats ex_world_stats ''42'' =
       Some \<lparr>messagesCached = 0, tokensUsed = 0, lastActivity = ''Never'',
             botUptime = ''3h 12m'', botLatency = 42\<rparr>
   \<and> getGuildStats ex_world_stats ''7'' =
       Some \<lparr>messagesCached = 10, tokensUsed = 2000, lastActivity = ex_time,
             botUptime = ''3h 12m'', botLatency = 42\<rparr>"
  using getGuildStats_no_data[of ex_world0 "''42''"]
    getGuildStats_no_data[of ex_world_null_stats "''42''"]
    getGuildStats_no_data[of ex_world_stats "''42''"]
    getGuildStats_no_data[of ex_world_stats "''7''"]
  by (simp add: ex_world0_def ex_world_null_stats_def ex_world_stats_def ex_stats_def)

text \<open>
  Claim C7 as stated fails: an artifact that holds the JSON text \<open>null\<close> exists and
  parses, and the reader still returns the no-data signal.
\<close>
theorem getGuildStats_null_for_falsy_artifact:
  "statsFile ex_world_null_stats = Some JsonFalsy
   \<and> getGuildStats ex_world_null_stats ''42'' = None
   \<and> \<not> (getGuildStats ex_world_null_stats ''42'' = None \<longleftrightarrow>
           statsFile ex_world_null_stats = None
           \<or> statsFile ex_world_null_stats = Some NotJson)"
  by (simp add: getGuildStats_def getBotStats_def ex_world_null_stats_def ex_world0_def)

section \<open>The endpoint layer\<close>

text \<open>Every guild-scoped handler has the same shape.\<close>

lemma handle_shape:
  "handle e env w req gid =
     (case authenticated req of
        None \<Rightarrow> (Inr unauthorized_401, w)
      | Some (tok, uid) \<Rightarrow>
          (case verifyAccess env gid tok of
             Inl err \<Rightarrow> (Inl err, w)
           | Inr Denied \<Rightarrow> (Inr forbidden_403, w)
           | Inr (Authorized gname) \<Rightarrow>
               catch_500 (failure_message e) (attempt e w req gid gname uid)))"
proof (cases e)
  case StatsGET
  then show ?thesis
    by (auto simp: stats_GET_def verifyAccess_stats_eq
        split: option.splits sum.splits access.splits)
qed (simp_all add: config_GET_def config_PUT_def commands_GET_def commands_PUT_def
      prompt_GET_def prompt_PUT_def
      split: option.splits sum.splits access.splits prod.splits)

lemma attempt_status:
  "attempt e w req gid gname uid = (Inr resp, w1) \<Longrightarrow> status resp = 200"
  by (cases e)
    (auto simp: config_GET_try_def config_PUT_try_def commands_GET_try_def commands_PUT_try_def
      prompt_GET_try_def prompt_PUT_try_def stats_GET_try_def json_response_def
      split: sum.splits prod.splits option.splits)

lemma catch_500_status:
  "catch_500 msg (attempt e w req gid gname uid) = (r, w1) \<Longrightarrow>
   \<exists>resp. r = Inr resp \<and> (status resp = 200 \<or> status resp = 500)"
  by (cases "attempt e w req gid gname uid"; cases "fst (attempt e w req gid gname uid)")
    (auto simp: catch_500_def json_response_def dest: attempt_status)

lemma ex_authenticated:
  "authenticated ex_request = Some (''token'', ''1001'')"
  "authenticated ex_request_settings = Some (''token'', ''1001'')"
  "authenticated ex_request_prompt = Some (''token'', ''1001'')"
  "authenticated ex_request_blank = Some (''token'', ''1001'')"
  "authenticated ex_request_expired = Some (''expired'', ''1001'')"
  "authenticated ex_request_anonymous = None"
  by (simp_all add: authenticated_def ex_request_def ex_request_settings_def
      ex_request_prompt_def ex_request_blank_def ex_request_expired_def
      ex_request_anonymous_def ex_session_def)

lemma ex_access:
  "verifyAccess ex_env ''42'' ''token'' = Inr (Authorized ''Test Guild'')"
  "verifyAccess ex_env ''7'' ''token'' = Inr Denied"
  by (simp_all add: verifyAccess_def ex_manageable)






lemma granted_config_GET:
  assumes "authenticated req = Some (tok, uid)"
    and "verifyAccess env gid tok = Inr (Authorized gname)"
  shows "handle ConfigGET env w req gid =
      (case getOrCreateGuildConfig w gid gname of
         (Inl err, w1) \<Rightarrow>
           (Inr \<lparr>status = 500, body = ErrorBody ''Failed to get config''\<rparr>, w1)
       | (Inr c, w1) \<Rightarrow> (Inr \<lparr>status = 200, body = ConfigBody c\<rparr>, w1))"
  using assms
  by (simp add: config_GET_def config_GET_try_def catch_500_def json_response_def
      split: prod.splits sum.splits)

lemma granted_commands_GET:
  assumes "authenticated req = Some (tok, uid)"
    and "verifyAccess env gid tok = Inr (Authorized gname)"
  shows "handle CommandsGET env w req gid =
      (case getOrCreateGuildConfig w gid gname of
         (Inl err, w1) \<Rightarrow>
           (Inr \<lparr>status = 500, body = ErrorBody ''Failed to get commands''\<rparr>, w1)
       | (Inr c, w1) \<Rightarrow> (Inr \<lparr>status = 200, body = CommandsBody (commands c)\<rparr>, w1))"
  using assms
  by (simp add: commands_GET_def commands_GET_try_def catch_500_def json_response_def
      split: prod.splits sum.splits)

lemma granted_prompt_GET:
  assumes "authenticated req = Some (tok, uid)"
    and "verifyAccess env gid tok = Inr (Authorized gname)"
  shows "handle PromptGET env w req gid =
      (case getOrCreateGuildConfig w gid gname of
         (Inl err, w1) \<Rightarrow>
           (Inr \<lparr>status = 500, body = ErrorBody ''Failed to get prompt''\<rparr>, w1)
       | (Inr c, w1) \<Rightarrow>
           (Inr \<lparr>status = 200,
                 body = PromptBody (systemPrompt c) DEFAULT_SYSTEM_PROMPT
                          (systemPrompt c \<noteq> None)\<rparr>, w1))"
  using assms
  by (simp add: prompt_GET_def prompt_GET_try_def catch_500_def json_response_def
      split: prod.splits sum.splits)

lemma granted_stats_GET:
  assumes "authenticated req = Some (tok, uid)"
    and "verifyAccess env gid tok = Inr (Authorized gname)"
  shows "handle StatsGET env w req gid =
      (Inr \<lparr>status = 200,
            body = StatsBody
              (case getGuildStats w gid of
                 None \<Rightarrow> \<lparr>messagesCached = 0, tokensUsed = 0, lastActivity = ''Never'',
                           botUptime = ''Unknown'', botLatency = 0\<rparr>
               | Some stats \<Rightarrow> stats)\<rparr>, w)"
  using assms
  by (simp add: stats_GET_def verifyAccess_stats_eq stats_GET_try_def catch_500_def
      json_response_def default_stats_def split: option.splits)

lemma granted_PUT_bad_body:
  assumes "authenticated req = Some (tok, uid)"
    and "verifyAccess env gid tok = Inr (Authorized gname)"
    and "json_of req = BodyNotJson \<or> json_of req = BodyNull"
  shows "handle ConfigPUT env w req gid =
           (Inr \<lparr>status = 500, body = ErrorBody ''Failed to update config''\<rparr>, w)
       \<and> handle CommandsPUT env w req gid =
           (Inr \<lparr>status = 500, body = ErrorBody ''Failed to update commands''\<rparr>, w)
       \<and> handle PromptPUT env w req gid =
           (Inr \<lparr>status = 500, body = ErrorBody ''Failed to update prompt''\<rparr>, w)"
  using assms
  by (auto simp: config_PUT_def config_PUT_try_def commands_PUT_def commands_PUT_try_def
      prompt_PUT_def prompt_PUT_try_def read_body_def catch_500_def json_response_def)

lemma granted_config_PUT:
  assumes "authenticated req = Some (tok, uid)"
    and "verifyAccess env gid tok = Inr (Authorized gname)"
    and "json_of req = BodyObject obj"
  shows "handle ConfigPUT env w req gid =
      (case updateGuildSettings w gid gname (b_settings obj) uid of
         (Inl err, w1) \<Rightarrow>
           (Inr \<lparr>status = 500, body = ErrorBody ''Failed to update config''\<rparr>, w1)
       | (Inr c, w1) \<Rightarrow> (Inr \<lparr>status = 200, body = ConfigBody c\<rparr>, w1))"
  using assms
  by (simp add: config_PUT_def config_PUT_try_def read_body_def catch_500_def
      json_response_def split: prod.splits sum.splits)

lemma granted_commands_PUT:
  assumes "authenticated req = Some (tok, uid)"
    and "verifyAccess env gid tok = Inr (Authorized gname)"
    and "json_of req = BodyObject obj"
  shows "handle CommandsPUT env w req gid =
      (case updateGuildCommands w gid gname (b_commands obj) uid of
         (Inl err, w1) \<Rightarrow>
           (Inr \<lparr>status = 500, body = ErrorBody ''Failed to update commands''\<rparr>, w1)
       | (Inr c, w1) \<Rightarrow> (Inr \<lparr>status = 200, body = CommandsBody (commands c)\<rparr>, w1))"
  using assms
  by (simp add: commands_PUT_def commands_PUT_try_def read_body_def catch_500_def
      json_response_def split: prod.splits sum.splits)

lemma granted_prompt_PUT_other:
  assumes "authenticated req = Some (tok, uid)"
    and "verifyAccess env gid tok = Inr (Authorized gname)"
    and "json_of req = BodyObject obj"
    and "b_systemPrompt obj = PromptOther"
  shows "handle PromptPUT env w req gid =
      (Inr \<lparr>status = 500, body = ErrorBody ''Failed to update prompt''\<rparr>, w)"
  using assms
  by (simp add: prompt_PUT_def prompt_PUT_try_def read_body_def promptValue_def catch_500_def
      json_response_def)

lemma granted_prompt_PUT:
  assumes "authenticated req = Some (tok, uid)"
    and "verifyAccess env gid tok = Inr (Authorized gname)"
    and "json_of req = BodyObject obj"
    and "b_systemPrompt obj = PromptMissing \<and> p = None
         \<or> (\<exists>s. b_systemPrompt obj = PromptString s
               \<and> p = (if trim s = [] then None else Some (trim s)))"
  shows "handle PromptPUT env w req gid =
      (case updateGuildPrompt w gid gname p uid of
         (Inl err, w1) \<Rightarrow>
           (Inr \<lparr>status = 500, body = ErrorBody ''Failed to update prompt''\<rparr>, w1)
       | (Inr c, w1) \<Rightarrow>
           (Inr \<lparr>status = 200,
                 body = PromptUpdatedBody (systemPrompt c) (systemPrompt c \<noteq> None)\<rparr>, w1))"
proof -
  from assms(4) have "promptValue (b_systemPrompt obj) = Inr p"
    by (auto simp: promptValue_def)
  with assms(1-3) show ?thesis
    by (simp add: prompt_PUT_def prompt_PUT_try_def read_body_def catch_500_def
        json_response_def split: prod.splits sum.splits)
qed

lemma refused_untouched:
  assumes h: "handle e env w req gid = (Inr resp, w1)"
    and st: "status resp = 401 \<or> status resp = 403"
  shows "w1 = w"
proof (cases "authenticated req")
  case None
  with h show ?thesis by (simp add: handle_shape)
next
  case (Some p)
  obtain tok uid where p: "p = (tok, uid)" by (cases p)
  show ?thesis
  proof (cases "verifyAccess env gid tok")
    case (Inl err)
    with h Some p show ?thesis by (simp add: handle_shape)
  next
    case (Inr a)
    show ?thesis
    proof (cases a)
      case Denied
      with h Some p Inr show ?thesis by (simp add: handle_shape)
    next
      case (Authorized gname)
      with h Some p Inr
      have "catch_500 (failure_message e) (attempt e w req gid gname uid) = (Inr resp, w1)"
        by (simp add: handle_shape)
      from catch_500_status[OF this] st show ?thesis by auto
    qed
  qed
qed

lemma ex_update_ok:
  "\<exists>c w1. updateGuildSettings ex_world1 ''42'' ''Test Guild'' (Some ex_partial) ''1001'' =
            (Inr c, w1)
          \<and> temperature (settings c) = 1 / 2"
  by (simp add: updateGuildSettings_def getOrCreate_existing[OF ex_stored] stampAndSave_eq
      spreadSettings_def or_else_def ex_partial_def ex_world1_fields)

lemma ex_update_fails:
  "updateGuildSettings ex_world_readonly ''42'' ''Test Guild'' (Some ex_partial) ''1001'' =
     (Inl WriteFailed, ex_world_readonly\<lparr>step := 4\<rparr>)"
  by (simp add: updateGuildSettings_def getOrCreate_existing[OF ex_stored_readonly]
      stampAndSave_eq ex_world_readonly_fields)

lemma ex_expired: "verifyAccess ex_env ''42'' ''expired'' = Inl (FailedToFetchGuilds 401)"
  by (simp add: verifyAccess_def getManageableGuilds_def getUserGuilds_def ex_env_def)

lemma ex_sent_settings: "json_of ex_request_settings =
    BodyObject \<lparr>b_settings = Some ex_partial, b_commands = None, b_systemPrompt = PromptMissing\<rparr>"
  by (simp add: ex_request_settings_def)

text \<open>
  Claim C3. Every guild-scoped endpoint, on every request: without a session token it
  answers 401 and leaves the world as it was; with one, when access verification throws,
  the handler lets the error escape and leaves the world as it was; when verification
  denies, it answers 403 and leaves the world as it was. When access is granted, each
  endpoint performs its operation with the guild's identifier and the verified guild
  name, answers 500 with its failure message when the operation throws, and answers 200
  with the operation's result when it returns: the configuration endpoint reads with
  \<open>getOrCreateGuildConfig\<close> and writes with \<open>updateGuildSettings\<close>, the commands
  endpoint reads with \<open>getOrCreateGuildConfig\<close> and writes with
  \<open>updateGuildCommands\<close>, the prompt endpoint reads with \<open>getOrCreateGuildConfig\<close>
  and writes the normalised prompt with \<open>updateGuildPrompt\<close>, and the stats endpoint
  reads with \<open>getGuildStats\<close> and answers with placeholder values when there is no
  data. A write whose body is no JSON or \<open>null\<close>, or whose prompt is no string, is
  answered 500 with the world unchanged. A response with status 401 or 403 always comes
  with an unchanged world.
\<close>
theorem guild_endpoint_outcomes:
  "(authenticated req = None \<longrightarrow>
      handle e env w req gid = (Inr \<lparr>status = 401, body = ErrorBody ''Unauthorized''\<rparr>, w))
   \<and> (\<forall>tok uid err. authenticated req = Some (tok, uid) \<and> verifyAccess env gid tok = Inl err \<longrightarrow>
      handle e env w req gid = (Inl err, w))
   \<and> (\<forall>tok uid. authenticated req = Some (tok, uid) \<and> verifyAccess env gid tok = Inr Denied \<longrightarrow>
      handle e env w req gid = (Inr \<lparr>status = 403, body = ErrorBody ''Forbidden''\<rparr>, w))
   \<and> (\<forall>tok uid gname.
        authenticated req = Some (tok, uid) \<and> verifyAccess env gid tok = Inr (Authorized gname) \<longrightarrow>
        handle ConfigGET env w req gid =
          (case getOrCreateGuildConfig w gid gname of
             (Inl err, w1) \<Rightarrow>
               (Inr \<lparr>status = 500, body = ErrorBody ''Failed to get config''\<rparr>, w1)
           | (Inr c, w1) \<Rightarrow> (Inr \<lparr>status = 200, body = ConfigBody c\<rparr>, w1))
        \<and> handle CommandsGET env w req gid =
          (case getOrCreateGuildConfig w gid gname of
             (Inl err, w1) \<Rightarrow>
               (Inr \<lparr>status = 500, body = ErrorBody ''Failed to get commands''\<rparr>, w1)
           | (Inr c, w1) \<Rightarrow> (Inr \<lparr>status = 200, body = CommandsBody (commands c)\<rparr>, w1))
        \<and> handle PromptGET env w req gid =
          (case getOrCreateGuildConfig w gid gname of
             (Inl err, w1) \<Rightarrow>
               (Inr \<lparr>status = 500, body = ErrorBody ''Failed to get prompt''\<rparr>, w1)
           | (Inr c, w1) \<Rightarrow>
               (Inr \<lparr>status = 200,
                     body = PromptBody (systemPrompt c) DEFAULT_SYSTEM_PROMPT
                              (systemPrompt c \<noteq> None)\<rparr>, w1))
        \<and> handle StatsGET env w req gid =
          (Inr \<lparr>status = 200,
                body = StatsBody
                  (case getGuildStats w gid of
                     None \<Rightarrow> \<lparr>messagesCached = 0, tokensUsed = 0, lastActivity = ''Never'',
                               botUptime = ''Unknown'', botLatency = 0\<rparr>
                   | Some stats \<Rightarrow> stats)\<rparr>, w)
        \<and> (json_of req = BodyNotJson \<or> json_of req = BodyNull \<longrightarrow>
             handle ConfigPUT env w req gid =
               (Inr \<lparr>status = 500, body = ErrorBody ''Failed to update config''\<rparr>, w)
             \<and> handle CommandsPUT env w req gid =
               (Inr \<lparr>status = 500, body = ErrorBody ''Failed to update commands''\<rparr>, w)
             \<and> handle PromptPUT env w req gid =
               (Inr \<lparr>status = 500, body = ErrorBody ''Failed to update prompt''\<rparr>, w))
        \<and> (\<forall>obj. json_of req = BodyObject obj \<longrightarrow>
             handle ConfigPUT env w req gid =
               (case updateGuildSettings w gid gname (b_settings obj) uid of
                  (Inl err, w1) \<Rightarrow>
                    (Inr \<lparr>status = 500, body = ErrorBody ''Failed to update config''\<rparr>, w1)
                | (Inr c, w1) \<Rightarrow> (Inr \<lparr>status = 200, body = ConfigBody c\<rparr>, w1))
             \<and> handle CommandsPUT env w req gid =
               (case updateGuildCommands w gid gname (b_commands obj) uid of
                  (Inl err, w1) \<Rightarrow>
                    (Inr \<lparr>status = 500, body = ErrorBody ''Failed to update commands''\<rparr>, w1)
                | (Inr c, w1) \<Rightarrow>
                    (Inr \<lparr>status = 200, body = CommandsBody (commands c)\<rparr>, w1))
             \<and> (b_systemPrompt obj = PromptOther \<longrightarrow>
                  handle PromptPUT env w req gid =
                    (Inr \<lparr>status = 500, body = ErrorBody ''Failed to update prompt''\<rparr>, w))
             \<and> (\<forall>p. b_systemPrompt obj = PromptMissing \<and> p = None
                      \<or> (\<exists>s. b_systemPrompt obj = PromptString s
                            \<and> p = (if trim s = [] then None else Some (trim s))) \<longrightarrow>
                  handle PromptPUT env w req gid =
                    (case updateGuildPrompt w gid gname p uid of
                       (Inl err, w1) \<Rightarrow>
                         (Inr \<lparr>status = 500,
                               body = ErrorBody ''Failed to update prompt''\<rparr>, w1)
                     | (Inr c, w1) \<Rightarrow>
                         (Inr \<lparr>status = 200,
                               body = PromptUpdatedBody (systemPrompt c)
                                        (systemPrompt c \<noteq> None)\<rparr>, w1)))))
   \<and> (\<forall>resp w1. handle e env w req gid = (Inr resp, w1)
        \<and> (status resp = 401 \<or> status resp = 403) \<longrightarrow> w1 = w)"
proof (intro conjI allI impI; (elim conjE)?)
  show "handle e env w req gid = (Inr \<lparr>status = 401, body = ErrorBody ''Unauthorized''\<rparr>, w)"
    if "authenticated req = None"
    using that by (simp add: handle_shape unauthorized_401_def json_response_def)
  show "handle e env w req gid = (Inl err, w)"
    if "authenticated req = Some (tok, uid)" "verifyAccess env gid tok = Inl err" for tok uid err
    using that by (simp add: handle_shape)
  show "handle e env w req gid = (Inr \<lparr>status = 403, body = ErrorBody ''Forbidden''\<rparr>, w)"
    if "authenticated req = Some (tok, uid)" "verifyAccess env gid tok = Inr Denied" for tok uid
    using that by (simp add: handle_shape forbidden_403_def json_response_def)
  show "w1 = w"
    if "handle e env w req gid = (Inr resp, w1)" "status resp = 401 \<or> status resp = 403"
    for resp w1
    using that by (rule refused_untouched)
qed (simp_all only: granted_config_GET granted_commands_GET granted_prompt_GET
      granted_stats_GET granted_PUT_bad_body granted_config_PUT granted_commands_PUT
      granted_prompt_PUT_other granted_prompt_PUT)

theorem guild_endpoint_outcomes_witness:
  "authenticated ex_request_anonymous = None
   \<and> handle ConfigPUT ex_env ex_world1 ex_request_anonymous ''42'' =
       (Inr \<lparr>status = 401, body = ErrorBody ''Unauthorized''\<rparr>, ex_world1)
   \<and> authenticated ex_request_expired = Some (''expired'', ''1001'')
   \<and> verifyAccess ex_env ''42'' ''expired'' = Inl (FailedToFetchGuilds 401)
   \<and> handle ConfigPUT ex_env ex_world1 ex_request_expired ''42'' =
       (Inl (FailedToFetchGuilds 401), ex_world1)
   \<and> authenticated ex_request_settings = Some (''token'', ''1001'')
   \<and> verifyAccess ex_env ''7'' ''token'' = Inr Denied
   \<and> handle ConfigPUT ex_env ex_world1 ex_request_settings ''7'' =
       (Inr \<lparr>status = 403, body = ErrorBody ''Forbidden''\<rparr>, ex_world1)
   \<and> verifyAccess ex_env ''42'' ''token'' = Inr (Authorized ''Test Guild'')
   \<and> handle ConfigPUT ex_env ex_world_readonly ex_request_settings ''42'' =
       (Inr \<lparr>status = 500, body = ErrorBody ''Failed to update config''\<rparr>,
        ex_world_readonly\<lparr>step := 4\<rparr>)
   \<and> (\<exists>c w1. handle ConfigPUT ex_env ex_world1 ex_request_settings ''42'' =
                (Inr \<lparr>status = 200, body = ConfigBody c\<rparr>, w1)
              \<and> temperature (settings c) = 1 / 2)"
proof -
  obtain c w1 where ok:
    "updateGuildSettings ex_world1 ''42'' ''Test Guild'' (Some ex_partial) ''1001'' = (Inr c, w1)"
    and c: "temperature (settings c) = 1 / 2"
    using ex_update_ok by blast
  from guild_endpoint_outcomes[where req = ex_request_anonymous and e = ConfigPUT
      and env = ex_env and w = ex_world1 and gid = "''42''"] ex_authenticated(6)
  have a: "handle ConfigPUT ex_env ex_world1 ex_request_anonymous ''42'' =
       (Inr \<lparr>status = 401, body = ErrorBody ''Unauthorized''\<rparr>, ex_world1)"
    by blast
  from guild_endpoint_outcomes[where req = ex_request_expired and e = ConfigPUT
      and env = ex_env and w = ex_world1 and gid = "''42''"] ex_authenticated(5) ex_expired
  have t: "handle ConfigPUT ex_env ex_world1 ex_request_expired ''42'' =
       (Inl (FailedToFetchGuilds 401), ex_world1)"
    by blast
  from guild_endpoint_outcomes[where req = ex_request_settings and e = ConfigPUT
      and env = ex_env and w = ex_world1 and gid = "''7''"] ex_authenticated(2) ex_access(2)
  have b: "handle ConfigPUT ex_env ex_world1 ex_request_settings ''7'' =
       (Inr \<lparr>status = 403, body = ErrorBody ''Forbidden''\<rparr>, ex_world1)"
    by blast
  note granted = guild_endpoint_outcomes[where req = ex_request_settings and e = ConfigPUT
      and env = ex_env and gid = "''42''", THEN conjunct2, THEN conjunct2, THEN conjunct2,
      THEN conjunct1, rule_format, OF conjI, OF ex_authenticated(2) ex_access(1)]
  note put = granted[THEN conjunct2, THEN conjunct2, THEN conjunct2, THEN conjunct2,
      THEN conjunct2, rule_format, OF ex_sent_settings, THEN conjunct1]
  from put[of ex_world_readonly]
  have d: "handle ConfigPUT ex_env ex_world_readonly ex_request_settings ''42'' =
       (Inr \<lparr>status = 500, body = ErrorBody ''Failed to update config''\<rparr>,
        ex_world_readonly\<lparr>step := 4\<rparr>)"
    by (simp add: ex_update_fails)
  from put[of ex_world1]
  have e: "handle ConfigPUT ex_env ex_world1 ex_request_settings ''42'' =
                (Inr \<lparr>status = 200, body = ConfigBody c\<rparr>, w1)"
    by (simp add: ok)
  from a t b d e c ex_authenticated(2,5,6) ex_access ex_expired show ?thesis by blast
qed

subsection \<open>Failing upstream queries\<close>




subsection \<open>Writing the prompt\<close>

lemma trim_Nil_iff: "trim s = [] \<longleftrightarrow> (\<forall>ch\<in>set s. isWhiteSpace ch)"
proof -
  have "trim s = [] \<longleftrightarrow> (\<forall>ch\<in>set (dropWhile isWhiteSpace s). isWhiteSpace ch)"
    by (simp only: trim_def rev_is_Nil_conv dropWhile_eq_Nil_conv set_rev)
  also have "\<dots> \<longleftrightarrow> dropWhile isWhiteSpace s = []"
  proof (cases "dropWhile isWhiteSpace s")
    case Nil
    show ?thesis by (simp only: Nil list.set ball_empty simp_thms)
  next
    case (Cons a as)
    then have "\<not> isWhiteSpace a"
      by (simp add: dropWhile_eq_Cons_conv)
    with Cons show ?thesis by (simp only: list.set ball_simps list.simps simp_thms)
  qed
  also have "\<dots> \<longleftrightarrow> (\<forall>ch\<in>set s. isWhiteSpace ch)"
    by (simp add: dropWhile_eq_Nil_conv)
  finally show ?thesis .
qed

lemma last_dropWhile: "dropWhile P xs \<noteq> [] \<Longrightarrow> last (dropWhile P xs) = last xs"
  by (induction xs) (auto split: if_splits)

lemma trim_ends:
  assumes "trim s \<noteq> []"
  shows "\<not> isWhiteSpace (hd (trim s)) \<and> \<not> isWhiteSpace (last (trim s))"
proof -
  define d where "d = dropWhile isWhiteSpace s"
  define r where "r = dropWhile isWhiteSpace (rev d)"
  have t: "trim s = rev r" by (simp add: trim_def r_def d_def)
  with assms have r: "r \<noteq> []" by simp
  then have d: "d \<noteq> []" by (auto simp: r_def)
  have "last (trim s) = hd r" using r by (simp add: t last_rev)
  moreover have "\<not> isWhiteSpace (hd r)" using r unfolding r_def by (simp add: hd_dropWhile)
  moreover have "hd (trim s) = last r" using r by (simp add: t hd_rev)
  moreover have "last r = last (rev d)" using r unfolding r_def by (rule last_dropWhile)
  moreover have "last (rev d) = hd d" using d by (simp add: last_rev)
  moreover have "\<not> isWhiteSpace (hd d)" using d unfolding d_def by (simp add: hd_dropWhile)
  ultimately show ?thesis by simp
qed

lemma stampAndSave_stored:
  assumes "stampAndSave w e actor = (Inr c, w')"
  shows "c = e\<lparr>updatedAt := clock w (step w), updatedBy := actor\<rparr>
    \<and> configFiles w' = (configFiles w)(guildId e \<mapsto> Json c)"
  using assms by (auto simp: stampAndSave_eq split: if_splits)

lemma updateGuildPrompt_stored:
  assumes "updateGuildPrompt w gid gname pv actor = (Inr c, w')"
  shows "systemPrompt c = pv \<and> updatedBy c = actor
    \<and> configFiles w' (guildId c) = Some (Json c)
    \<and> (\<forall>k. k \<noteq> guildId c \<longrightarrow> configFiles w' k = configFiles w k)
    \<and> (case getGuildConfig w gid of
          Some prior \<Rightarrow>
            guildId c = guildId prior \<and> guildName c = guildName prior
            \<and> settings c = settings prior \<and> commands c = commands prior
        | None \<Rightarrow>
            guildId c = gid \<and> guildName c = gname
            \<and> settings c = DEFAULT_SETTINGS \<and> commands c = DEFAULT_COMMANDS)"
proof (cases "getGuildConfig w gid")
  case None
  show ?thesis
  proof (cases "writeFails w (Suc (step w))")
    case True
    with None assms show ?thesis
      by (simp add: updateGuildPrompt_def getOrCreate_absent)
  next
    case False
    define w1 where "w1 = w\<lparr>configFiles := (configFiles w)(gid \<mapsto> Json (newConfig gid gname (clock w (step w)))),
              step := Suc (Suc (step w))\<rparr>"
    from None False assms
    have "stampAndSave w1 ((newConfig gid gname (clock w (step w)))\<lparr>systemPrompt := pv\<rparr>) actor
        = (Inr c, w')"
      by (simp add: updateGuildPrompt_def getOrCreate_absent w1_def)
    from stampAndSave_stored[OF this] None show ?thesis
      by (auto simp: newConfig_def w1_def)
  qed
next
  case (Some prior)
  with assms have "stampAndSave w (prior\<lparr>systemPrompt := pv\<rparr>) actor = (Inr c, w')"
    by (simp add: updateGuildPrompt_def getOrCreate_existing)
  from stampAndSave_stored[OF this] Some show ?thesis
    by auto
qed

lemma getOrCreate_no_failures:
  "\<forall>n. \<not> writeFails w n \<Longrightarrow>
   \<exists>c w1. getOrCreateGuildConfig w gid gname = (Inr c, w1) \<and> writeFails w1 = writeFails w"
  by (cases "getGuildConfig w gid") (simp_all add: getOrCreate_absent getOrCreate_existing)

lemma updateGuildPrompt_no_failures:
  assumes "\<forall>n. \<not> writeFails w n"
  shows "\<exists>c w1. updateGuildPrompt w gid gname pv actor = (Inr c, w1)"
proof -
  from getOrCreate_no_failures[OF assms] obtain c w1
    where "getOrCreateGuildConfig w gid gname = (Inr c, w1)" and "writeFails w1 = writeFails w"
    by blast
  with assms show ?thesis
    by (simp add: updateGuildPrompt_def stampAndSave_eq)
qed

lemma existing_guildId:
  "files_match_ids w \<Longrightarrow> getGuildConfig w gid = Some prior \<Longrightarrow> guildId prior = gid"
  by (simp add: files_match_ids_def getGuildConfig_Some_iff)

lemma ex_trim: "trim ''  Be brief.  '' = ''Be brief.''" "trim ''   '' = []"
  by (simp_all add: trim_def isWhiteSpace_def)

lemma ex_files_match: "files_match_ids ex_world1"
  by (simp add: files_match_ids_def ex_world1_def ex_config_def newConfig_def)

text \<open>
  Claim C9. Take a prompt write by an authenticated and authorized user whose body is a
  JSON object. When the body prompt is neither missing nor a string, the answer is 500 and
  nothing is stored. Otherwise every 200 response reports the normalised prompt (the
  trimmed body prompt, or null when the body prompt is missing, empty or white space only)
  and whether it is non-null, and comes with the record that was written: it carries the
  normalised prompt and the caller as actor, it has the identifier, name, settings and
  commands of the guild's prior record (of the default record when there was none), it
  is what the file named after its identifier now holds, and no other file has changed.
  When every file holds the record of the guild it is named after, that file is the file
  of the guild the request addressed. A stored prompt is never empty and neither starts
  nor ends with white space, so it is never white space only. When no write fails, the
  response is a 200 response.
\<close>
theorem prompt_PUT_stores_trimmed:
  assumes session: "authenticated req = Some (tok, uid)"
    and access: "verifyAccess env gid tok = Inr (Authorized gname)"
    and sent: "json_of req = BodyObject obj"
  shows "(b_systemPrompt obj = PromptOther \<longrightarrow>
           prompt_PUT env w req gid =
             (Inr \<lparr>status = 500, body = ErrorBody ''Failed to update prompt''\<rparr>, w))
    \<and> (\<forall>pv. b_systemPrompt obj = PromptMissing \<and> pv = None
             \<or> (\<exists>s. b_systemPrompt obj = PromptString s
                   \<and> pv = (if (\<forall>ch\<in>set s. isWhiteSpace ch) then None else Some (trim s))) \<longrightarrow>
          (\<forall>resp w'. prompt_PUT env w req gid = (Inr resp, w') \<and> status resp = 200 \<longrightarrow>
             (\<exists>c. body resp = PromptUpdatedBody pv (pv \<noteq> None)
                \<and> systemPrompt c = pv \<and> updatedBy c = uid
                \<and> (case getGuildConfig w gid of
                      Some prior \<Rightarrow>
                        guildId c = guildId prior \<and> guildName c = guildName prior
                        \<and> settings c = settings prior \<and> commands c = commands prior
                    | None \<Rightarrow>
                        guildId c = gid \<and> guildName c = gname
                        \<and> settings c = DEFAULT_SETTINGS \<and> commands c = DEFAULT_COMMANDS)
                \<and> configFiles w' (guildId c) = Some (Json c)
                \<and> (\<forall>k. k \<noteq> guildId c \<longrightarrow> configFiles w' k = configFiles w k)
                \<and> (files_match_ids w \<longrightarrow> guildId c = gid \<and> configFiles w' gid = Some (Json c))
                \<and> (\<forall>t. pv = Some t \<longrightarrow>
                      t \<noteq> [] \<and> \<not> isWhiteSpace (hd t) \<and> \<not> isWhiteSpace (last t))))
          \<and> ((\<forall>n. \<not> writeFails w n) \<longrightarrow>
               (\<exists>resp w'. prompt_PUT env w req gid = (Inr resp, w') \<and> status resp = 200)))"
proof (intro conjI allI impI)
  assume "b_systemPrompt obj = PromptOther"
  then show "prompt_PUT env w req gid =
             (Inr \<lparr>status = 500, body = ErrorBody ''Failed to update prompt''\<rparr>, w)"
    using granted_prompt_PUT_other[OF session access sent] by simp
next
  fix pv resp w'
  assume given: "b_systemPrompt obj = PromptMissing \<and> pv = None
             \<or> (\<exists>s. b_systemPrompt obj = PromptString s
                   \<and> pv = (if (\<forall>ch\<in>set s. isWhiteSpace ch) then None else Some (trim s)))"
    and answered: "prompt_PUT env w req gid = (Inr resp, w') \<and> status resp = 200"
  from given have norm: "b_systemPrompt obj = PromptMissing \<and> pv = None
         \<or> (\<exists>s. b_systemPrompt obj = PromptString s
               \<and> pv = (if trim s = [] then None else Some (trim s)))"
    by (simp add: trim_Nil_iff)
  have clean: "t \<noteq> [] \<and> \<not> isWhiteSpace (hd t) \<and> \<not> isWhiteSpace (last t)" if "pv = Some t" for t
    using norm that trim_ends by (auto split: if_splits)
  note shape = granted_prompt_PUT[OF session access sent norm, where w = w, simplified]
  show "\<exists>c. body resp = PromptUpdatedBody pv (pv \<noteq> None)
                \<and> systemPrompt c = pv \<and> updatedBy c = uid
                \<and> (case getGuildConfig w gid of
                      Some prior \<Rightarrow>
                        guildId c = guildId prior \<and> guildName c = guildName prior
                        \<and> settings c = settings prior \<and> commands c = commands prior
                    | None \<Rightarrow>
                        guildId c = gid \<and> guildName c = gname
                        \<and> settings c = DEFAULT_SETTINGS \<and> commands c = DEFAULT_COMMANDS)
                \<and> configFiles w' (guildId c) = Some (Json c)
                \<and> (\<forall>k. k \<noteq> guildId c \<longrightarrow> configFiles w' k = configFiles w k)
                \<and> (files_match_ids w \<longrightarrow> guildId c = gid \<and> configFiles w' gid = Some (Json c))
                \<and> (\<forall>t. pv = Some t \<longrightarrow>
                      t \<noteq> [] \<and> \<not> isWhiteSpace (hd t) \<and> \<not> isWhiteSpace (last t))"
  proof (cases "updateGuildPrompt w gid gname pv uid")
    case (Pair r w1)
    show ?thesis
    proof (cases r)
      case (Inl err)
      with Pair answered shape show ?thesis by auto
    next
      case (Inr c)
      with Pair answered shape have w': "w' = w1"
        and body: "body resp = PromptUpdatedBody (systemPrompt c) (systemPrompt c \<noteq> None)"
        by auto
      from Pair Inr have upd: "updateGuildPrompt w gid gname pv uid = (Inr c, w')"
        by (simp add: w')
      note stored = updateGuildPrompt_stored[OF upd]
      have pinned: "guildId c = gid \<and> configFiles w' gid = Some (Json c)" if "files_match_ids w"
      proof (cases "getGuildConfig w gid")
        case None
        with stored show ?thesis by auto
      next
        case (Some prior)
        with stored existing_guildId[OF that Some] show ?thesis by auto
      qed
      from stored body clean pinned show ?thesis by blast
    qed
  qed
next
  fix pv
  assume given: "b_systemPrompt obj = PromptMissing \<and> pv = None
             \<or> (\<exists>s. b_systemPrompt obj = PromptString s
                   \<and> pv = (if (\<forall>ch\<in>set s. isWhiteSpace ch) then None else Some (trim s)))"
    and writable: "\<forall>n. \<not> writeFails w n"
  from given have norm: "b_systemPrompt obj = PromptMissing \<and> pv = None
         \<or> (\<exists>s. b_systemPrompt obj = PromptString s
               \<and> pv = (if trim s = [] then None else Some (trim s)))"
    by (simp add: trim_Nil_iff)
  note shape = granted_prompt_PUT[OF session access sent norm, where w = w, simplified]
  from updateGuildPrompt_no_failures[OF writable, of gid gname pv uid]
  show "\<exists>resp w'. prompt_PUT env w req gid = (Inr resp, w') \<and> status resp = 200"
    by (auto simp: shape)
qed

theorem prompt_PUT_stores_trimmed_witness:
  "authenticated ex_request_prompt = Some (''token'', ''1001'')
   \<and> verifyAccess ex_env ''42'' ''token'' = Inr (Authorized ''Test Guild'')
   \<and> files_match_ids ex_world1
   \<and> (\<exists>resp w' c. prompt_PUT ex_env ex_world1 ex_request_prompt ''42'' = (Inr resp, w')
         \<and> status resp = 200
         \<and> body resp = PromptUpdatedBody (Some ''Be brief.'') True
         \<and> configFiles w' ''42'' = Some (Json c)
         \<and> systemPrompt c = Some ''Be brief.''
         \<and> guildName c = ''Test Guild'' \<and> updatedBy c = ''1001'')
   \<and> (\<exists>resp w' c. prompt_PUT ex_env ex_world1 ex_request_blank ''42'' = (Inr resp, w')
         \<and> status resp = 200
         \<and> body resp = PromptUpdatedBody None False
         \<and> configFiles w' ''42'' = Some (Json c)
         \<and> systemPrompt c = None)
   \<and> prompt_PUT ex_env ex_world1 ex_request_number ''42'' =
       (Inr \<lparr>status = 500, body = ErrorBody ''Failed to update prompt''\<rparr>, ex_world1)"
proof -
  define padded where "padded = ''  Be brief.  ''"
  define blanks where "blanks = ''   ''"
  have writable: "\<forall>n. \<not> writeFails ex_world1 n"
    by (simp add: ex_world1_fields)
  have sent: "json_of ex_request_prompt = BodyObject
        \<lparr>b_settings = None, b_commands = None, b_systemPrompt = PromptString padded\<rparr>"
    by (simp add: ex_request_prompt_def padded_def)
  have blank: "json_of ex_request_blank = BodyObject
        \<lparr>b_settings = None, b_commands = None, b_systemPrompt = PromptString blanks\<rparr>"
    by (simp add: ex_request_blank_def blanks_def)
  have number: "json_of ex_request_number = BodyObject
        \<lparr>b_settings = None, b_commands = None, b_systemPrompt = PromptOther\<rparr>"
    by (simp add: ex_request_number_def)
  have auth_number: "authenticated ex_request_number = Some (''token'', ''1001'')"
    by (simp add: authenticated_def ex_request_number_def ex_session_def)
  have spaces: "(\<forall>ch\<in>set padded. isWhiteSpace ch) \<longleftrightarrow> False"
    "(\<forall>ch\<in>set blanks. isWhiteSpace ch) \<longleftrightarrow> True"
    by (simp_all add: isWhiteSpace_def padded_def blanks_def)
  have trimmed: "trim padded = ''Be brief.''"
    by (simp add: padded_def ex_trim)
  have name: "guildName ex_config = ''Test Guild''"
    by (simp add: ex_config_def newConfig_def)
  note first_claim = prompt_PUT_stores_trimmed[OF ex_authenticated(3) ex_access(1) sent,
      of ex_world1, THEN conjunct2, rule_format, of "Some ''Be brief.''"]
  have first_pv: "b_systemPrompt \<lparr>b_settings = None, b_commands = None,
          b_systemPrompt = PromptString padded\<rparr> = PromptMissing \<and> Some ''Be brief.'' = None
      \<or> (\<exists>s. b_systemPrompt \<lparr>b_settings = None, b_commands = None,
                b_systemPrompt = PromptString padded\<rparr> = PromptString s
            \<and> Some ''Be brief.'' = (if (\<forall>ch\<in>set s. isWhiteSpace ch) then None else Some (trim s)))"
    by (simp add: spaces trimmed)
  from first_claim[OF first_pv] writable obtain resp w'
    where put: "prompt_PUT ex_env ex_world1 ex_request_prompt ''42'' = (Inr resp, w')"
      and ok: "status resp = 200"
    by blast
  from first_claim[OF first_pv, THEN conjunct1, rule_format, OF conjI, OF put ok]
    ex_files_match ex_stored name
  have first: "\<exists>resp w' c. prompt_PUT ex_env ex_world1 ex_request_prompt ''42'' = (Inr resp, w')
         \<and> status resp = 200
         \<and> body resp = PromptUpdatedBody (Some ''Be brief.'') True
         \<and> configFiles w' ''42'' = Some (Json c)
         \<and> systemPrompt c = Some ''Be brief.''
         \<and> guildName c = ''Test Guild'' \<and> updatedBy c = ''1001''"
    using put ok by auto
  note second_claim = prompt_PUT_stores_trimmed[OF ex_authenticated(4) ex_access(1) blank,
      of ex_world1, THEN conjunct2, rule_format, of None]
  have second_pv: "b_systemPrompt \<lparr>b_settings = None, b_commands = None,
          b_systemPrompt = PromptString blanks\<rparr> = PromptMissing \<and> None = None
      \<or> (\<exists>s. b_systemPrompt \<lparr>b_settings = None, b_commands = None,
                b_systemPrompt = PromptString blanks\<rparr> = PromptString s
            \<and> None = (if (\<forall>ch\<in>set s. isWhiteSpace ch) then None else Some (trim s)))"
    by (simp add: spaces)
  from second_claim[OF second_pv] writable obtain resp2 w2
    where put2: "prompt_PUT ex_env ex_world1 ex_request_blank ''42'' = (Inr resp2, w2)"
      and ok2: "status resp2 = 200"
    by blast
  from second_claim[OF second_pv, THEN conjunct1, rule_format, OF conjI, OF put2 ok2]
    ex_files_match
  have second: "\<exists>resp w' c. prompt_PUT ex_env ex_world1 ex_request_blank ''42'' = (Inr resp, w')
         \<and> status resp = 200
         \<and> body resp = PromptUpdatedBody None False
         \<and> configFiles w' ''42'' = Some (Json c)
         \<and> systemPrompt c = None"
    using put2 ok2 by auto
  from prompt_PUT_stores_trimmed[OF auth_number ex_access(1) number, of ex_world1]
  have third: "prompt_PUT ex_env ex_world1 ex_request_number ''42'' =
       (Inr \<lparr>status = 500, body = ErrorBody ''Failed to update prompt''\<rparr>, ex_world1)"
    by simp
  from first second third ex_authenticated(3) ex_access(1) ex_files_match show ?thesis
    by blast
qed

end
